theory Spec2Isabelle
  imports Main "HOL-Library.Word" "HOL-Library.Sublist"
begin

unbundle bit_operations_syntax

section \<open>Bytes, faults and plain-old-data (details::WritePOD / details::ReadPOD)\<close>

text \<open>
  The embedding fixes the ABI the sources are written for (Unreal on x86-64 Windows):
  little-endian integers, 8-byte pointers, a 2-byte \<open>wchar_t\<close> (= \<open>TCHAR\<close>), natural
  alignment of struct members. Padding bytes of a struct are written as zero.
  A pointer is the 64-bit value \<open>reinterpret_cast<uint64>\<close> gives.
\<close>

type_synonym u8 = "8 word"
type_synonym u16 = "16 word"
type_synonym u32 = "32 word"
type_synonym u64 = "64 word"
type_synonym bytes = "u8 list"

text \<open>
  What the C++ leaves undefined or aborts on is a value of \<open>fault\<close>:
  an access outside a buffer, a failed \<open>assert\<close>, a template that has no instance
  (a type that is not in a queue's type list, a serializer without \<open>Read\<close>), a pointer
  that does not point to an object of the expected kind.
\<close>

datatype fault = OutOfBounds | AssertionFailed | NotInTypeList | NoReadMember | BadPointer

definition bytes_u16 :: "u16 \<Rightarrow> bytes" where
  "bytes_u16 v = [ucast v, ucast (drop_bit 8 v)]"

definition bytes_u32 :: "u32 \<Rightarrow> bytes" where
  "bytes_u32 v = [ucast v, ucast (drop_bit 8 v), ucast (drop_bit 16 v), ucast (drop_bit 24 v)]"

definition bytes_u64 :: "u64 \<Rightarrow> bytes" where
  "bytes_u64 v = [ucast v, ucast (drop_bit 8 v), ucast (drop_bit 16 v), ucast (drop_bit 24 v),
                  ucast (drop_bit 32 v), ucast (drop_bit 40 v), ucast (drop_bit 48 v),
                  ucast (drop_bit 56 v)]"

text \<open>The value of a little-endian byte sequence, at any width.\<close>

fun word_of_bytes :: "bytes \<Rightarrow> 'a::len word" where
  "word_of_bytes [] = 0"
| "word_of_bytes (b # bs) = ucast b OR push_bit 8 (word_of_bytes bs)"

text \<open>\<open>buffer.insert(buffer.end(), beginBytes, beginBytes + sizeof(T))\<close>\<close>

definition WritePOD :: "bytes \<Rightarrow> bytes \<Rightarrow> bytes" where
  "WritePOD valueBytes buffer = buffer @ valueBytes"

text \<open>
  \<open>ReadPOD<T>\<close> returns the \<open>sizeof(T)\<close> bytes at the cursor and advances the cursor.
  The C++ does not check the range; reading past the end of the vector is the fault
  \<open>OutOfBounds\<close>.
\<close>

definition ReadPOD :: "nat \<Rightarrow> bytes \<Rightarrow> nat \<Rightarrow> fault + (bytes \<times> nat)" where
  "ReadPOD sizeofT buffer cursor =
     (if cursor + sizeofT \<le> length buffer
      then Inr (take sizeofT (drop cursor buffer), cursor + sizeofT)
      else Inl OutOfBounds)"

definition ReadPOD_u8 :: "bytes \<Rightarrow> nat \<Rightarrow> fault + (u8 \<times> nat)" where
  "ReadPOD_u8 buffer cursor =
     (case ReadPOD 1 buffer cursor of Inl f \<Rightarrow> Inl f
      | Inr (bs, cursor') \<Rightarrow> Inr (word_of_bytes bs, cursor'))"

definition ReadPOD_u32 :: "bytes \<Rightarrow> nat \<Rightarrow> fault + (u32 \<times> nat)" where
  "ReadPOD_u32 buffer cursor =
     (case ReadPOD 4 buffer cursor of Inl f \<Rightarrow> Inl f
      | Inr (bs, cursor') \<Rightarrow> Inr (word_of_bytes bs, cursor'))"

definition ReadPOD_u64 :: "bytes \<Rightarrow> nat \<Rightarrow> fault + (u64 \<times> nat)" where
  "ReadPOD_u64 buffer cursor =
     (case ReadPOD 8 buffer cursor of Inl f \<Rightarrow> Inl f
      | Inr (bs, cursor') \<Rightarrow> Inr (word_of_bytes bs, cursor'))"

section \<open>Strings (strings.h)\<close>

text \<open>\<open>StringCodec::Type : uint8\<close>\<close>

definition Ansi :: u8 where "Ansi = 0"
definition Wide :: u8 where "Wide = 1"
definition Utf8 :: u8 where "Utf8 = 2"
definition UnrealName :: u8 where "UnrealName = 3"

text \<open>
  \<open>StringReference\<close> is \<open>(Ptr, SizeBytes, Codec)\<close>. A \<open>StaticStringRef\<close> keeps the pointer:
  it is the identity of the string (\<open>GetID\<close>). A \<open>DynamicString\<close> points to a temporary
  buffer that serialization copies; its pointer is represented by \<open>Data\<close>, the bytes
  found at \<open>Ptr\<close>.
\<close>

record StringReference =
  SizeBytes :: u32
  Codec :: u8

record StaticStringRef = StringReference +
  Ptr :: u64

record DynamicString = StringReference +
  Data :: bytes

definition GetID :: "StaticStringRef \<Rightarrow> u64" where
  "GetID r = Ptr r"

text \<open>\<open>sizeof(StaticStringRef)\<close>: pointer, \<open>uint32\<close>, \<open>uint8\<close>, three bytes of padding.\<close>

definition sizeof_StaticStringRef :: nat where
  "sizeof_StaticStringRef = 16"

definition bytes_StaticStringRef :: "StaticStringRef \<Rightarrow> bytes" where
  "bytes_StaticStringRef r = bytes_u64 (Ptr r) @ bytes_u32 (SizeBytes r) @ [Codec r] @ [0, 0, 0]"

definition StaticStringRef_of_bytes :: "bytes \<Rightarrow> StaticStringRef" where
  "StaticStringRef_of_bytes bs =
     \<lparr>SizeBytes = word_of_bytes (take 4 (drop 8 bs)),
      Codec = word_of_bytes (take 1 (drop 12 bs)),
      Ptr = word_of_bytes (take 8 bs)\<rparr>"

text \<open>The constructors. \<open>Strlen\<close> results are narrowed to \<open>uint32\<close> by \<open>StringReference\<close>.\<close>

definition wide_bytes :: "u16 list \<Rightarrow> bytes" where
  "wide_bytes cs = concat (map bytes_u16 cs)"

definition DynamicString_ansi :: "u8 list \<Rightarrow> DynamicString" where
  "DynamicString_ansi str =
     (let size = (of_nat (length str) :: u32)
      in \<lparr>SizeBytes = size, Codec = Ansi, Data = take (unat size) str\<rparr>)"

definition DynamicString_wide :: "u16 list \<Rightarrow> DynamicString" where
  "DynamicString_wide str =
     (let size = (of_nat (length str * 2) :: u32)
      in \<lparr>SizeBytes = size, Codec = Wide, Data = take (unat size) (wide_bytes str)\<rparr>)"

text \<open>\<open>Serializer<DynamicString>\<close>\<close>

definition DynamicString_GetHeaderSize :: u32 where
  "DynamicString_GetHeaderSize = 1 + 4"

definition DynamicString_GetSize :: "DynamicString \<Rightarrow> u32" where
  "DynamicString_GetSize v = DynamicString_GetHeaderSize + SizeBytes v"

definition DynamicString_Write :: "DynamicString \<Rightarrow> bytes \<Rightarrow> fault + bytes" where
  "DynamicString_Write v buffer =
     (if \<not> (Codec v = Ansi \<or> Codec v = Wide) then Inl AssertionFailed
      else if length (Data v) < unat (SizeBytes v) then Inl OutOfBounds
      else Inr (WritePOD (take (unat (SizeBytes v)) (Data v))
                 (WritePOD (bytes_u32 (SizeBytes v)) (WritePOD [Codec v] buffer))))"

definition DynamicString_Read :: "bytes \<Rightarrow> nat \<Rightarrow> fault + (DynamicString \<times> nat)" where
  "DynamicString_Read buffer cursor =
     (case ReadPOD_u8 buffer cursor of Inl f \<Rightarrow> Inl f
      | Inr (codec, cursor1) \<Rightarrow>
     (case ReadPOD_u32 buffer cursor1 of Inl f \<Rightarrow> Inl f
      | Inr (bufferSize, cursor2) \<Rightarrow>
     (if cursor2 + unat bufferSize > length buffer then Inl OutOfBounds
      else if \<not> (codec = Ansi \<or> codec = Wide) then Inl AssertionFailed
      else Inr (\<lparr>SizeBytes = bufferSize, Codec = codec,
                 Data = take (unat bufferSize) (drop cursor2 buffer)\<rparr>,
                cursor2 + unat bufferSize))))"

section \<open>Static memory of the process\<close>

text \<open>
  Metadata records and static strings are statically allocated and read through raw
  pointers. \<open>Memory\<close> gives the object found at an address, by kind; an address that
  holds no object of the kind asked for is the fault \<open>BadPointer\<close>. Strings are
  NUL-terminated and stored without the terminator. \<open>FNameEntry\<close> is the host's
  string-intern entry: \<open>IsWide\<close>, \<open>GetNameLength\<close>, \<open>GetAnsiName\<close>/\<open>GetWideName\<close>.
\<close>

datatype FNameEntry = FNameEntry_Ansi "u8 list" | FNameEntry_Wide "u16 list"

text \<open>\<open>LogMetadata{Target, Msg, File, Line, Level}\<close> (LogEvents.h)\<close>
datatype LogMetadata = LogMetadata u64 u64 u64 u32 u8

text \<open>\<open>MetricMetadata{Lod, Name, Unit, Target, File, Line}\<close> (MetricEvents.h)\<close>
datatype MetricMetadata = MetricMetadata u8 u64 u64 u64 u64 u32

text \<open>\<open>SpanMetadata{Name, Target, File, Line}\<close> (SpanEvents.h)\<close>
datatype SpanMetadata = SpanMetadata u64 u64 u64 u32

record Memory =
  AnsiStrings :: "u64 \<Rightarrow> u8 list option"
  WideStrings :: "u64 \<Rightarrow> u16 list option"
  NameEntries :: "u64 \<Rightarrow> FNameEntry option"
  LogMetadatas :: "u64 \<Rightarrow> LogMetadata option"
  MetricMetadatas :: "u64 \<Rightarrow> MetricMetadata option"
  SpanMetadatas :: "u64 \<Rightarrow> SpanMetadata option"

text \<open>\<open>StaticStringRef( const wchar_t* ptr )\<close>: \<open>Strlen(ptr) * sizeof(wchar_t)\<close> bytes, \<open>Wide\<close>.\<close>

definition StaticStringRef_wide :: "Memory \<Rightarrow> u64 \<Rightarrow> fault + StaticStringRef" where
  "StaticStringRef_wide mem ptr =
     (case WideStrings mem ptr of None \<Rightarrow> Inl BadPointer
      | Some str \<Rightarrow> Inr \<lparr>SizeBytes = of_nat (length str * 2), Codec = Wide, Ptr = ptr\<rparr>)"

text \<open>
  \<open>DynamicString( const StringReference& ref )\<close> applied to a static string: the same
  pointer, size and codec; the assertion admits \<open>Ansi\<close> and \<open>Wide\<close> only.
\<close>

definition DynamicString_of_ref :: "Memory \<Rightarrow> StaticStringRef \<Rightarrow> fault + DynamicString" where
  "DynamicString_of_ref mem r =
     (if Codec r = Ansi then
        (case AnsiStrings mem (Ptr r) of None \<Rightarrow> Inl BadPointer
         | Some str \<Rightarrow> Inr \<lparr>SizeBytes = SizeBytes r, Codec = Codec r, Data = str\<rparr>)
      else if Codec r = Wide then
        (case WideStrings mem (Ptr r) of None \<Rightarrow> Inl BadPointer
         | Some str \<Rightarrow> Inr \<lparr>SizeBytes = SizeBytes r, Codec = Codec r, Data = wide_bytes str\<rparr>)
      else Inl AssertionFailed)"

section \<open>Queue elements and their serializers\<close>

text \<open>
  Every type that is pushed into some \<open>HeterogeneousQueue\<close>, with its fields in the order
  of the C++ struct:
  \<^item> \<open>LogStaticStrEvent{Desc, Timestamp}\<close>
  \<^item> \<open>LogStringInteropEvent{Timestamp, Level, Target, Msg}\<close>
  \<^item> \<open>StaticStringRef\<close> (in the type list of \<open>LogEventQueue\<close>)
  \<^item> \<open>IntegerMetricEvent{Desc, Value, Timestamp}\<close>
  \<^item> \<open>FloatMetricEvent{Desc, Value, Timestamp}\<close>, the \<open>double\<close> as its 64 bits
  \<^item> \<open>BeginThreadSpanEvent{Desc, Timestamp}\<close>, \<open>EndThreadSpanEvent{Desc, Timestamp}\<close>
  \<^item> \<open>StaticStringDependency{Ref}\<close>
  \<^item> \<open>LogMetadataDependency{Id, Target, Msg, File, Line, Level}\<close>
  \<^item> \<open>MetricMetadataDependency{Id, Lod, Name, Unit, Target, File, Line}\<close>
  \<^item> \<open>SpanMetadataDependency{Id, Name, Target, File, Line}\<close>
\<close>

datatype Elem =
    LogStaticStrEvent u64 u64
  | LogStringInteropEvent u64 u8 StaticStringRef DynamicString
  | StaticStringRefValue StaticStringRef
  | IntegerMetricEvent u64 u64 u64
  | FloatMetricEvent u64 u64 u64
  | BeginThreadSpanEvent u64 u64
  | EndThreadSpanEvent u64 u64
  | StaticStringDependency StaticStringRef
  | LogMetadataDependency u64 u64 u64 u64 u32 u8
  | MetricMetadataDependency u64 u8 u64 u64 u64 u64 u32
  | SpanMetadataDependency u64 u64 u64 u64 u32

text \<open>The template arguments: the C++ types themselves.\<close>

datatype ElemType =
    T_LogStaticStrEvent | T_LogStringInteropEvent | T_StaticStringRef
  | T_IntegerMetricEvent | T_FloatMetricEvent
  | T_BeginThreadSpanEvent | T_EndThreadSpanEvent
  | T_StaticStringDependency | T_LogMetadataDependency | T_MetricMetadataDependency
  | T_SpanMetadataDependency

fun TypeOf :: "Elem \<Rightarrow> ElemType" where
  "TypeOf (LogStaticStrEvent desc ts) = T_LogStaticStrEvent"
| "TypeOf (LogStringInteropEvent ts level target msg) = T_LogStringInteropEvent"
| "TypeOf (StaticStringRefValue r) = T_StaticStringRef"
| "TypeOf (IntegerMetricEvent desc v ts) = T_IntegerMetricEvent"
| "TypeOf (FloatMetricEvent desc v ts) = T_FloatMetricEvent"
| "TypeOf (BeginThreadSpanEvent desc ts) = T_BeginThreadSpanEvent"
| "TypeOf (EndThreadSpanEvent desc ts) = T_EndThreadSpanEvent"
| "TypeOf (StaticStringDependency r) = T_StaticStringDependency"
| "TypeOf (LogMetadataDependency i target msg file line level) = T_LogMetadataDependency"
| "TypeOf (MetricMetadataDependency i lod name unit target file line) = T_MetricMetadataDependency"
| "TypeOf (SpanMetadataDependency i name target file line) = T_SpanMetadataDependency"

text \<open>\<open>sizeof(T)\<close> of the plain-old-data types (0 for the two with a serializer of their own).\<close>

fun sizeof :: "ElemType \<Rightarrow> nat" where
  "sizeof T_LogStaticStrEvent = 16"
| "sizeof T_StaticStringRef = 16"
| "sizeof T_IntegerMetricEvent = 24"
| "sizeof T_FloatMetricEvent = 24"
| "sizeof T_BeginThreadSpanEvent = 16"
| "sizeof T_EndThreadSpanEvent = 16"
| "sizeof T_LogMetadataDependency = 40"
| "sizeof T_MetricMetadataDependency = 56"
| "sizeof T_SpanMetadataDependency = 40"
| "sizeof T_LogStringInteropEvent = 0"
| "sizeof T_StaticStringDependency = 0"

text \<open>The object representation of a plain-old-data value (\<open>reinterpret_cast<const uint8*>\<close>).\<close>

fun bytes_of :: "Elem \<Rightarrow> bytes" where
  "bytes_of (LogStaticStrEvent desc ts) = bytes_u64 desc @ bytes_u64 ts"
| "bytes_of (StaticStringRefValue r) = bytes_StaticStringRef r"
| "bytes_of (IntegerMetricEvent desc v ts) = bytes_u64 desc @ bytes_u64 v @ bytes_u64 ts"
| "bytes_of (FloatMetricEvent desc v ts) = bytes_u64 desc @ bytes_u64 v @ bytes_u64 ts"
| "bytes_of (BeginThreadSpanEvent desc ts) = bytes_u64 desc @ bytes_u64 ts"
| "bytes_of (EndThreadSpanEvent desc ts) = bytes_u64 desc @ bytes_u64 ts"
| "bytes_of (LogMetadataDependency i target msg file line level) =
     bytes_u64 i @ bytes_u64 target @ bytes_u64 msg @ bytes_u64 file @ bytes_u32 line
     @ [level] @ [0, 0, 0]"
| "bytes_of (MetricMetadataDependency i lod name unit target file line) =
     bytes_u64 i @ [lod] @ [0, 0, 0, 0, 0, 0, 0] @ bytes_u64 name @ bytes_u64 unit
     @ bytes_u64 target @ bytes_u64 file @ bytes_u32 line @ [0, 0, 0, 0]"
| "bytes_of (SpanMetadataDependency i name target file line) =
     bytes_u64 i @ bytes_u64 name @ bytes_u64 target @ bytes_u64 file @ bytes_u32 line
     @ [0, 0, 0, 0]"
| "bytes_of (LogStringInteropEvent ts level target msg) = []"
| "bytes_of (StaticStringDependency r) = []"

text \<open>The value a plain-old-data object representation denotes (\<open>reinterpret_cast<const T*>\<close>).\<close>

definition sub_u64 :: "nat \<Rightarrow> bytes \<Rightarrow> u64" where
  "sub_u64 off bs = word_of_bytes (take 8 (drop off bs))"

definition sub_u32 :: "nat \<Rightarrow> bytes \<Rightarrow> u32" where
  "sub_u32 off bs = word_of_bytes (take 4 (drop off bs))"

definition sub_u8 :: "nat \<Rightarrow> bytes \<Rightarrow> u8" where
  "sub_u8 off bs = word_of_bytes (take 1 (drop off bs))"

fun of_bytes :: "ElemType \<Rightarrow> bytes \<Rightarrow> Elem option" where
  "of_bytes T_LogStaticStrEvent bs = Some (LogStaticStrEvent (sub_u64 0 bs) (sub_u64 8 bs))"
| "of_bytes T_StaticStringRef bs = Some (StaticStringRefValue (StaticStringRef_of_bytes bs))"
| "of_bytes T_IntegerMetricEvent bs =
     Some (IntegerMetricEvent (sub_u64 0 bs) (sub_u64 8 bs) (sub_u64 16 bs))"
| "of_bytes T_FloatMetricEvent bs =
     Some (FloatMetricEvent (sub_u64 0 bs) (sub_u64 8 bs) (sub_u64 16 bs))"
| "of_bytes T_BeginThreadSpanEvent bs =
     Some (BeginThreadSpanEvent (sub_u64 0 bs) (sub_u64 8 bs))"
| "of_bytes T_EndThreadSpanEvent bs = Some (EndThreadSpanEvent (sub_u64 0 bs) (sub_u64 8 bs))"
| "of_bytes T_LogMetadataDependency bs =
     Some (LogMetadataDependency (sub_u64 0 bs) (sub_u64 8 bs) (sub_u64 16 bs) (sub_u64 24 bs)
       (sub_u32 32 bs) (sub_u8 36 bs))"
| "of_bytes T_MetricMetadataDependency bs =
     Some (MetricMetadataDependency (sub_u64 0 bs) (sub_u8 8 bs) (sub_u64 16 bs)
       (sub_u64 24 bs) (sub_u64 32 bs) (sub_u64 40 bs) (sub_u32 48 bs))"
| "of_bytes T_SpanMetadataDependency bs =
     Some (SpanMetadataDependency (sub_u64 0 bs) (sub_u64 8 bs) (sub_u64 16 bs) (sub_u64 24 bs)
       (sub_u32 32 bs))"
| "of_bytes T_LogStringInteropEvent bs = None"
| "of_bytes T_StaticStringDependency bs = None"

text \<open>
  \<open>Serializer<T>\<close>: the generic template serves every plain-old-data type;
  \<open>LogStringInteropEvent\<close> and \<open>StaticStringDependency\<close> have specializations, and the
  one of \<open>StaticStringDependency\<close> declares no \<open>Read\<close>.
\<close>

fun IsSizeStatic :: "ElemType \<Rightarrow> bool" where
  "IsSizeStatic T_LogStringInteropEvent = False"
| "IsSizeStatic T_StaticStringDependency = False"
| "IsSizeStatic t = True"

text \<open>The bytes of an interned name: \<open>GetNameLength() * 2\<close> or \<open>GetNameLength()\<close> of them.\<close>

fun FNameEntry_bytes :: "FNameEntry \<Rightarrow> bytes" where
  "FNameEntry_bytes (FNameEntry_Wide name) = wide_bytes name"
| "FNameEntry_bytes (FNameEntry_Ansi name) = name"

fun FNameEntry_size :: "FNameEntry \<Rightarrow> nat" where
  "FNameEntry_size (FNameEntry_Wide name) = length name * 2"
| "FNameEntry_size (FNameEntry_Ansi name) = length name"

fun FNameEntry_codec :: "FNameEntry \<Rightarrow> u8" where
  "FNameEntry_codec (FNameEntry_Wide name) = Wide"
| "FNameEntry_codec (FNameEntry_Ansi name) = Ansi"

definition StaticStringDependency_GetSize :: "Memory \<Rightarrow> StaticStringRef \<Rightarrow> fault + u32" where
  "StaticStringDependency_GetSize mem r =
     (if Codec r = UnrealName then
        (case NameEntries mem (GetID r) of None \<Rightarrow> Inl BadPointer
         | Some entry \<Rightarrow> Inr (of_nat (8 + unat DynamicString_GetHeaderSize + FNameEntry_size entry)))
      else Inr (of_nat (8 + unat DynamicString_GetHeaderSize + unat (SizeBytes r))))"

definition StaticStringDependency_Write ::
  "Memory \<Rightarrow> StaticStringRef \<Rightarrow> bytes \<Rightarrow> fault + bytes" where
  "StaticStringDependency_Write mem r buffer =
     (let buffer1 = WritePOD (bytes_u64 (GetID r)) buffer in
      if Codec r = UnrealName then
        (case NameEntries mem (GetID r) of None \<Rightarrow> Inl BadPointer
         | Some entry \<Rightarrow>
             DynamicString_Write
               \<lparr>SizeBytes = of_nat (FNameEntry_size entry), Codec = FNameEntry_codec entry,
                Data = FNameEntry_bytes entry\<rparr> buffer1)
      else
        (case DynamicString_of_ref mem r of Inl f \<Rightarrow> Inl f
         | Inr str \<Rightarrow> DynamicString_Write str buffer1))"

fun GetSize :: "Memory \<Rightarrow> Elem \<Rightarrow> fault + u32" where
  "GetSize mem (LogStringInteropEvent ts level target msg) =
     Inr (of_nat (8 + 1 + sizeof_StaticStringRef + unat (DynamicString_GetSize msg)))"
| "GetSize mem (StaticStringDependency r) = StaticStringDependency_GetSize mem r"
| "GetSize mem v = Inr (of_nat (sizeof (TypeOf v)))"

fun Write :: "Memory \<Rightarrow> Elem \<Rightarrow> bytes \<Rightarrow> fault + bytes" where
  "Write mem (LogStringInteropEvent ts level target msg) buffer =
     DynamicString_Write msg
       (WritePOD (bytes_StaticStringRef target) (WritePOD [level] (WritePOD (bytes_u64 ts) buffer)))"
| "Write mem (StaticStringDependency r) buffer = StaticStringDependency_Write mem r buffer"
| "Write mem v buffer = Inr (WritePOD (bytes_of v) buffer)"

text \<open>
  \<open>Read\<close> hands the decoded value to the callback and moves the cursor past it. The
  callback is the visitor: it takes the value and the visitor's state.
\<close>

definition with_cursor :: "nat \<Rightarrow> fault + 'a \<Rightarrow> fault + ('a \<times> nat)" where
  "with_cursor cursor r = (case r of Inl f \<Rightarrow> Inl f | Inr acc \<Rightarrow> Inr (acc, cursor))"

definition LogStringInteropEvent_Read ::
  "(Elem \<Rightarrow> 'a \<Rightarrow> fault + 'a) \<Rightarrow> bytes \<Rightarrow> nat \<Rightarrow> 'a \<Rightarrow> fault + ('a \<times> nat)" where
  "LogStringInteropEvent_Read callback buffer cursor acc =
     (case ReadPOD_u64 buffer cursor of Inl f \<Rightarrow> Inl f
      | Inr (timestamp, cursor1) \<Rightarrow>
     (case ReadPOD_u8 buffer cursor1 of Inl f \<Rightarrow> Inl f
      | Inr (level, cursor2) \<Rightarrow>
     (case ReadPOD sizeof_StaticStringRef buffer cursor2 of Inl f \<Rightarrow> Inl f
      | Inr (targetBytes, cursor3) \<Rightarrow>
     (case DynamicString_Read buffer cursor3 of Inl f \<Rightarrow> Inl f
      | Inr (msg, cursor4) \<Rightarrow>
     with_cursor cursor4
       (callback (LogStringInteropEvent timestamp level
                    (StaticStringRef_of_bytes targetBytes) msg) acc)))))"

definition Read ::
  "ElemType \<Rightarrow> (Elem \<Rightarrow> 'a \<Rightarrow> fault + 'a) \<Rightarrow> bytes \<Rightarrow> nat \<Rightarrow> 'a \<Rightarrow> fault + ('a \<times> nat)" where
  "Read t callback buffer cursor acc =
     (if t = T_LogStringInteropEvent then LogStringInteropEvent_Read callback buffer cursor acc
      else case of_bytes t (take (sizeof t) (drop cursor buffer)) of
             None \<Rightarrow> Inl NoReadMember
           | Some v \<Rightarrow>
               (if cursor + sizeof t > length buffer then Inl OutOfBounds
                else with_cursor (cursor + sizeof t) (callback v acc)))"

section \<open>HeterogeneousQueue (HeterogeneousQueue.h)\<close>

text \<open>
  The type list \<open>TS...\<close> is the parameter \<open>ts\<close>. \<open>reserve\<close> does not change the contents:
  a new queue is empty whatever the capacity hint.
\<close>

record HeterogeneousQueue =
  Buffer :: bytes
  NbEvents :: nat

definition HeterogeneousQueue_new :: "nat \<Rightarrow> HeterogeneousQueue" where
  "HeterogeneousQueue_new bufferSize = \<lparr>Buffer = [], NbEvents = 0\<rparr>"

definition GetSizeBytes :: "HeterogeneousQueue \<Rightarrow> nat" where
  "GetSizeBytes q = length (Buffer q)"

definition GetNbEvents :: "HeterogeneousQueue \<Rightarrow> nat" where
  "GetNbEvents q = NbEvents q"

text \<open>\<open>details::IndexOfType\<close>, a \<open>uint8\<close>; no instance when the type is not in the list.\<close>

fun IndexOfType :: "ElemType \<Rightarrow> ElemType list \<Rightarrow> fault + u8" where
  "IndexOfType t [] = Inl NotInTypeList"
| "IndexOfType t (HEAD # REST) =
     (if t = HEAD then Inr 0
      else case IndexOfType t REST of Inl f \<Rightarrow> Inl f | Inr i \<Rightarrow> Inr (1 + i))"

definition Push :: "Memory \<Rightarrow> ElemType list \<Rightarrow> Elem \<Rightarrow> HeterogeneousQueue \<Rightarrow> fault + HeterogeneousQueue" where
  "Push mem ts event q =
     (case IndexOfType (TypeOf event) ts of Inl f \<Rightarrow> Inl f
      | Inr typeIndex \<Rightarrow>
     (let buffer1 = Buffer q @ [typeIndex] in
     (case (if \<not> IsSizeStatic (TypeOf event)
            then (case GetSize mem event of Inl f \<Rightarrow> Inl f
                  | Inr n \<Rightarrow> Inr (WritePOD (bytes_u32 n) buffer1))
            else Inr buffer1) of Inl f \<Rightarrow> Inl f
      | Inr buffer2 \<Rightarrow>
     (case Write mem event buffer2 of Inl f \<Rightarrow> Inl f
      | Inr buffer3 \<Rightarrow> Inr \<lparr>Buffer = buffer3, NbEvents = NbEvents q + 1\<rparr>))))"

text \<open>\<open>&Buffer[0]\<close>: element 0 of the vector, which an empty vector does not have.\<close>

definition GetPtr :: "HeterogeneousQueue \<Rightarrow> fault + bytes" where
  "GetPtr q = (if Buffer q = [] then Inl OutOfBounds else Inr (Buffer q))"

fun VisitValue ::
  "ElemType list \<Rightarrow> u8 \<Rightarrow> (Elem \<Rightarrow> 'a \<Rightarrow> fault + 'a) \<Rightarrow> bytes \<Rightarrow> nat \<Rightarrow> 'a
   \<Rightarrow> fault + ('a \<times> nat)" where
  "VisitValue [] typeIndex v buffer cursor acc = Inl AssertionFailed"
| "VisitValue (HEAD # REST) typeIndex v buffer cursor acc =
     (if 0 = typeIndex then
        (case (if \<not> IsSizeStatic HEAD then ReadPOD_u32 buffer cursor else Inr (0, cursor)) of
           Inl f \<Rightarrow> Inl f
         | Inr (valueSize, cursor1) \<Rightarrow> Read HEAD v buffer cursor1 acc)
      else VisitValue REST (typeIndex - 1) v buffer cursor acc)"

text \<open>Every read moves the cursor forward, so the scan of \<open>ForEach\<close> ends.\<close>

lemma ReadPOD_cursor: "ReadPOD n buffer cursor = Inr (bs, cursor') \<Longrightarrow> cursor' = cursor + n"
  by (auto simp: ReadPOD_def split: if_splits)

lemma ReadPOD_u8_cursor: "ReadPOD_u8 buffer cursor = Inr (x, cursor') \<Longrightarrow> cursor' = cursor + 1"
  by (auto simp: ReadPOD_u8_def dest: ReadPOD_cursor split: sum.splits)

lemma ReadPOD_u32_cursor: "ReadPOD_u32 buffer cursor = Inr (x, cursor') \<Longrightarrow> cursor' = cursor + 4"
  by (auto simp: ReadPOD_u32_def dest: ReadPOD_cursor split: sum.splits)

lemma ReadPOD_u64_cursor: "ReadPOD_u64 buffer cursor = Inr (x, cursor') \<Longrightarrow> cursor' = cursor + 8"
  by (auto simp: ReadPOD_u64_def dest: ReadPOD_cursor split: sum.splits)

lemma DynamicString_Read_cursor:
  "DynamicString_Read buffer cursor = Inr (x, cursor') \<Longrightarrow> cursor \<le> cursor'"
  by (auto simp: DynamicString_Read_def dest!: ReadPOD_u8_cursor ReadPOD_u32_cursor
      split: sum.splits if_splits)

lemma LogStringInteropEvent_Read_cursor:
  "LogStringInteropEvent_Read callback buffer cursor acc = Inr (acc', cursor') \<Longrightarrow> cursor \<le> cursor'"
  by (auto simp: LogStringInteropEvent_Read_def with_cursor_def
      dest!: ReadPOD_u8_cursor ReadPOD_u64_cursor ReadPOD_cursor DynamicString_Read_cursor
      split: sum.splits)

lemma Read_cursor: "Read t callback buffer cursor acc = Inr (acc', cursor') \<Longrightarrow> cursor \<le> cursor'"
  by (auto simp: Read_def with_cursor_def dest: LogStringInteropEvent_Read_cursor
      split: if_splits option.splits sum.splits)

lemma VisitValue_cursor:
  "VisitValue ts typeIndex v buffer cursor acc = Inr (acc', cursor') \<Longrightarrow> cursor \<le> cursor'"
proof (induction ts arbitrary: typeIndex)
  case Nil
  then show ?case by simp
next
  case (Cons HEAD REST)
  show ?case
  proof (cases "0 = typeIndex")
    case True
    with Cons.prems show ?thesis
      by (auto dest!: ReadPOD_u32_cursor Read_cursor split: sum.splits if_splits)
  next
    case False
    with Cons show ?thesis by simp
  qed
qed

function ForEach_loop ::
  "ElemType list \<Rightarrow> (Elem \<Rightarrow> 'a \<Rightarrow> fault + 'a) \<Rightarrow> bytes \<Rightarrow> nat \<Rightarrow> 'a \<Rightarrow> fault + 'a" where
  "ForEach_loop ts v buffer cursor acc =
     (if cursor < length buffer then
        (case ReadPOD_u8 buffer cursor of Inl f \<Rightarrow> Inl f
         | Inr (typeIndex, cursor1) \<Rightarrow>
        (case VisitValue ts typeIndex v buffer cursor1 acc of Inl f \<Rightarrow> Inl f
         | Inr (acc', cursor2) \<Rightarrow> ForEach_loop ts v buffer cursor2 acc'))
      else Inr acc)"
  by pat_completeness auto
termination
proof (relation "measure (\<lambda>(ts, v, buffer, cursor, acc). length buffer - cursor)")
  show "wf (measure (\<lambda>(ts, v, buffer, cursor, acc). length buffer - cursor))"
    by simp
next
  fix ts :: "ElemType list" and v :: "Elem \<Rightarrow> 'a \<Rightarrow> fault + 'a" and buffer :: bytes
    and cursor :: nat and acc :: 'a and x2 :: "u8 \<times> nat" and typeIndex :: u8
    and cursor1 :: nat and x2a :: "'a \<times> nat" and acc' :: 'a and cursor2 :: nat
  assume lt: "cursor < length buffer"
    and r: "ReadPOD_u8 buffer cursor = Inr x2" and x2: "(typeIndex, cursor1) = x2"
    and vv: "VisitValue ts typeIndex v buffer cursor1 acc = Inr x2a"
    and x2a: "(acc', cursor2) = x2a"
  from r x2 have "cursor1 = cursor + 1"
    by (auto dest: ReadPOD_u8_cursor)
  moreover from vv x2a have "cursor1 \<le> cursor2"
    by (auto dest: VisitValue_cursor)
  ultimately show "((ts, v, buffer, cursor2, acc'), (ts, v, buffer, cursor, acc))
      \<in> measure (\<lambda>(ts, v, buffer, cursor, acc). length buffer - cursor)"
    using lt by simp
qed

declare ForEach_loop.simps [simp del]

text \<open>\<open>ForEach\<close>: the scan from cursor 0 to \<open>GetSizeBytes()\<close>.\<close>

definition ForEach ::
  "ElemType list \<Rightarrow> (Elem \<Rightarrow> 'a \<Rightarrow> fault + 'a) \<Rightarrow> HeterogeneousQueue \<Rightarrow> 'a \<Rightarrow> fault + 'a" where
  "ForEach ts v q acc = ForEach_loop ts v (Buffer q) 0 acc"

section \<open>Well-formed values\<close>

text \<open>
  The invariant of a \<open>DynamicString\<close>: its constructors assert that the codec is \<open>Ansi\<close>
  or \<open>Wide\<close>, and \<open>Data\<close> stands for exactly the \<open>SizeBytes\<close> bytes at \<open>Ptr\<close>.
\<close>

definition wf_DynamicString :: "DynamicString \<Rightarrow> bool" where
  "wf_DynamicString d \<longleftrightarrow> (Codec d = Ansi \<or> Codec d = Wide) \<and> length (Data d) = unat (SizeBytes d)"

fun wf_Elem :: "Elem \<Rightarrow> bool" where
  "wf_Elem (LogStringInteropEvent ts level target msg) = wf_DynamicString msg"
| "wf_Elem v = True"

definition empty_Memory :: Memory where
  "empty_Memory = \<lparr>AnsiStrings = Map.empty, WideStrings = Map.empty, NameEntries = Map.empty,
     LogMetadatas = Map.empty, MetricMetadatas = Map.empty, SpanMetadatas = Map.empty\<rparr>"

section \<open>Round trip of the serializers\<close>

lemma length_bytes_u16 [simp]: "length (bytes_u16 v) = 2" by (simp add: bytes_u16_def)
lemma length_bytes_u32 [simp]: "length (bytes_u32 v) = 4" by (simp add: bytes_u32_def)
lemma length_bytes_u64 [simp]: "length (bytes_u64 v) = 8" by (simp add: bytes_u64_def)

lemma byte_step:
  assumes "m = n + 8"
  shows "ucast (ucast (drop_bit n x) :: u8) OR push_bit 8 (drop_bit m x) = drop_bit n (x :: 'a::len word)"
proof (rule bit_word_eqI)
  fix k
  assume k: "k < LENGTH('a)"
  show "bit (ucast (ucast (drop_bit n x) :: u8) OR push_bit 8 (drop_bit m x)) k = bit (drop_bit n x) k"
  proof (cases "k < 8")
    case True
    with k show ?thesis by (simp add: bit_simps)
  next
    case False
    then have "n + 8 + (k - 8) = n + k" by simp
    with False k assms show ?thesis by (simp add: bit_simps)
  qed
qed

lemma word_of_bytes_u8 [simp]: "word_of_bytes [b] = (b :: u8)"
  by simp

lemma word_of_bytes_u32 [simp]: "word_of_bytes (bytes_u32 v) = v"
proof -
  have z: "(0 :: u32) = drop_bit 32 v" by simp
  have "word_of_bytes (bytes_u32 v) =
      ucast (ucast (drop_bit 0 v) :: u8) OR push_bit 8 (ucast (ucast (drop_bit 8 v) :: u8) OR push_bit 8
        (ucast (ucast (drop_bit 16 v) :: u8) OR push_bit 8 (ucast (ucast (drop_bit 24 v) :: u8) OR push_bit 8 (drop_bit 32 v))))"
    by (simp add: bytes_u32_def)
  also have "\<dots> = drop_bit 0 v"
    by (simp only: byte_step [where n = 24 and m = 32] byte_step [where n = 16 and m = 24]
        byte_step [where n = 8 and m = 16] byte_step [where n = 0 and m = 8])
  finally show ?thesis by simp
qed


lemma word_of_bytes_u64 [simp]: "word_of_bytes (bytes_u64 v) = v"
proof -
  have "word_of_bytes (bytes_u64 v) =
      ucast (ucast (drop_bit 0 v) :: u8) OR push_bit 8 (ucast (ucast (drop_bit 8 v) :: u8) OR push_bit 8
        (ucast (ucast (drop_bit 16 v) :: u8) OR push_bit 8 (ucast (ucast (drop_bit 24 v) :: u8) OR push_bit 8
        (ucast (ucast (drop_bit 32 v) :: u8) OR push_bit 8 (ucast (ucast (drop_bit 40 v) :: u8) OR push_bit 8
        (ucast (ucast (drop_bit 48 v) :: u8) OR push_bit 8 (ucast (ucast (drop_bit 56 v) :: u8) OR push_bit 8 (drop_bit 64 v))))))))"
    by (simp add: bytes_u64_def)
  also have "\<dots> = drop_bit 0 v"
    by (simp only: byte_step [where n = 56 and m = 64] byte_step [where n = 48 and m = 56]
        byte_step [where n = 40 and m = 48] byte_step [where n = 32 and m = 40]
        byte_step [where n = 24 and m = 32] byte_step [where n = 16 and m = 24]
        byte_step [where n = 8 and m = 16] byte_step [where n = 0 and m = 8])
  finally show ?thesis by simp
qed

lemma StaticStringRef_of_bytes_inverse [simp]:
  "StaticStringRef_of_bytes (bytes_StaticStringRef r @ rest) = r"
  by (simp add: StaticStringRef_of_bytes_def bytes_StaticStringRef_def)

lemma length_bytes_StaticStringRef [simp]: "length (bytes_StaticStringRef r) = 16"
  by (simp add: bytes_StaticStringRef_def)

lemma ReadPOD_u8_at [simp]:
  "ReadPOD_u8 (pre @ b # rest) (length pre) = Inr (b, length pre + 1)"
  by (simp add: ReadPOD_u8_def ReadPOD_def)

lemma ReadPOD_u32_at:
  "cursor = length pre \<Longrightarrow> ReadPOD_u32 (pre @ bytes_u32 v @ rest) cursor = Inr (v, cursor + 4)"
  by (simp add: ReadPOD_u32_def ReadPOD_def)

lemma ReadPOD_u64_at:
  "cursor = length pre \<Longrightarrow> ReadPOD_u64 (pre @ bytes_u64 v @ rest) cursor = Inr (v, cursor + 8)"
  by (simp add: ReadPOD_u64_def ReadPOD_def)

lemma ReadPOD_at:
  "cursor = length pre \<Longrightarrow> length bs = n \<Longrightarrow> ReadPOD n (pre @ bs @ rest) cursor = Inr (bs, cursor + n)"
  by (simp add: ReadPOD_def)


lemma DynamicString_Write_eq:
  "wf_DynamicString d \<Longrightarrow>
   DynamicString_Write d buffer = Inr (buffer @ [Codec d] @ bytes_u32 (SizeBytes d) @ Data d)"
  by (simp add: DynamicString_Write_def wf_DynamicString_def WritePOD_def)

lemma DynamicString_Read_at:
  assumes "wf_DynamicString d" and "cursor = length pre"
  shows "DynamicString_Read (pre @ [Codec d] @ bytes_u32 (SizeBytes d) @ Data d @ rest) cursor
       = Inr (d, cursor + 5 + unat (SizeBytes d))"
  using assms
  by (simp add: DynamicString_Read_def ReadPOD_u8_def ReadPOD_u32_def ReadPOD_def
      wf_DynamicString_def)


lemma LogStringInteropEvent_Read_at:
  assumes "wf_DynamicString msg" and "cursor = length pre"
  shows "LogStringInteropEvent_Read callback
           (pre @ bytes_u64 ts @ [level] @ bytes_StaticStringRef target @ [Codec msg]
              @ bytes_u32 (SizeBytes msg) @ Data msg @ rest) cursor acc
       = with_cursor (cursor + 30 + unat (SizeBytes msg))
           (callback (LogStringInteropEvent ts level target msg) acc)"
  using assms
  by (cases msg)
    (simp add: LogStringInteropEvent_Read_def DynamicString_Read_def ReadPOD_u8_def
      ReadPOD_u32_def ReadPOD_u64_def ReadPOD_def wf_DynamicString_def sizeof_StaticStringRef_def
      StaticStringRef_of_bytes_inverse [where rest = "[]", simplified] ac_simps)


lemma POD_inverse:
  "IsSizeStatic (TypeOf v) \<Longrightarrow> of_bytes (TypeOf v) (bytes_of v @ rest) = Some v"
  by (cases v) (simp_all add: sub_u64_def sub_u32_def sub_u8_def)

lemma POD_length:
  "IsSizeStatic (TypeOf v) \<Longrightarrow> length (bytes_of v) = sizeof (TypeOf v)"
  by (cases v) simp_all

lemma Write_POD: "IsSizeStatic (TypeOf v) \<Longrightarrow> Write mem v buffer = Inr (buffer @ bytes_of v)"
  by (cases v) (simp_all add: WritePOD_def)

lemma Read_POD_at:
  assumes "IsSizeStatic (TypeOf v)" and "cursor = length pre"
  shows "Read (TypeOf v) callback (pre @ bytes_of v @ rest) cursor acc
       = with_cursor (cursor + sizeof (TypeOf v)) (callback v acc)"
proof -
  have ne: "TypeOf v \<noteq> T_LogStringInteropEvent"
    using assms(1) by auto
  have tk: "take (sizeof (TypeOf v)) (drop cursor (pre @ bytes_of v @ rest)) = bytes_of v"
    using assms by (simp add: POD_length)
  have dec: "of_bytes (TypeOf v) (bytes_of v) = Some v"
    using POD_inverse [OF assms(1), of "[]"] by simp
  show ?thesis
    using assms(1) ne unfolding assms(2)
    by (simp add: Read_def tk [unfolded assms(2)] dec POD_length)
qed

text \<open>
  Claim C3. For every type with a \<open>Read\<close> (all but \<open>StaticStringDependency\<close>) and every
  well-formed value \<open>v\<close>: \<open>Write\<close> appends a payload to the buffer, whatever precedes it
  (the type tag and, for the types without a static size, the length prefix that \<open>Push\<close>
  writes), and \<open>Read\<close> at the cursor where the payload starts hands the callback a value
  equal to \<open>v\<close> and leaves the cursor exactly past the payload, whatever follows it.
  The payload of a \<open>LogStringInteropEvent\<close> is \<open>[ts:u64][level:u8][target as POD][dynstr]\<close>.
  A \<open>DynamicString\<close> is written as \<open>[codec:u8][size:u32][bytes]\<close> and read back equal.
\<close>

theorem C3_roundtrip:
  assumes "TypeOf v \<noteq> T_StaticStringDependency" and "wf_Elem v" and "wf_DynamicString d"
  shows "(\<exists>payload. Write mem v buffer = Inr (buffer @ payload)
          \<and> (\<forall>callback rest acc.
                Read (TypeOf v) callback (buffer @ payload @ rest) (length buffer) acc
                = with_cursor (length (buffer @ payload)) (callback v acc))
          \<and> (\<forall>ts level target msg. v = LogStringInteropEvent ts level target msg \<longrightarrow>
                payload = bytes_u64 ts @ [level] @ bytes_StaticStringRef target
                          @ [Codec msg] @ bytes_u32 (SizeBytes msg) @ Data msg))
       \<and> DynamicString_Write d buffer
           = Inr (buffer @ [Codec d] @ bytes_u32 (SizeBytes d) @ Data d)
       \<and> (\<forall>rest. DynamicString_Read (buffer @ [Codec d] @ bytes_u32 (SizeBytes d) @ Data d @ rest)
                   (length buffer)
                 = Inr (d, length (buffer @ [Codec d] @ bytes_u32 (SizeBytes d) @ Data d)))"
proof (intro conjI allI)
  show "DynamicString_Write d buffer = Inr (buffer @ [Codec d] @ bytes_u32 (SizeBytes d) @ Data d)"
    using assms(3) by (rule DynamicString_Write_eq)
next
  fix rest
  show "DynamicString_Read (buffer @ [Codec d] @ bytes_u32 (SizeBytes d) @ Data d @ rest)
          (length buffer)
        = Inr (d, length (buffer @ [Codec d] @ bytes_u32 (SizeBytes d) @ Data d))"
    using DynamicString_Read_at [OF assms(3), of "length buffer" buffer rest] assms(3)
    by (simp add: wf_DynamicString_def)
next
  show "\<exists>payload. Write mem v buffer = Inr (buffer @ payload)
          \<and> (\<forall>callback rest acc.
                Read (TypeOf v) callback (buffer @ payload @ rest) (length buffer) acc
                = with_cursor (length (buffer @ payload)) (callback v acc))
          \<and> (\<forall>ts level target msg. v = LogStringInteropEvent ts level target msg \<longrightarrow>
                payload = bytes_u64 ts @ [level] @ bytes_StaticStringRef target
                          @ [Codec msg] @ bytes_u32 (SizeBytes msg) @ Data msg)"
  proof (cases "IsSizeStatic (TypeOf v)")
    case True
    then have "\<And>ts level target msg. v \<noteq> LogStringInteropEvent ts level target msg"
      by auto
    with True show ?thesis
      by (intro exI [of _ "bytes_of v"])
        (simp add: Write_POD Read_POD_at [where pre = buffer] POD_length)
  next
    case False
    with assms(1) obtain ts level target msg where v: "v = LogStringInteropEvent ts level target msg"
      by (cases v) auto
    with assms(2) have wf: "wf_DynamicString msg" by simp
    have rd: "Read (TypeOf v) callback
        (buffer @ (bytes_u64 ts @ [level] @ bytes_StaticStringRef target
           @ [Codec msg] @ bytes_u32 (SizeBytes msg) @ Data msg) @ rest) (length buffer) acc
      = with_cursor (length (buffer @ (bytes_u64 ts @ [level]
             @ bytes_StaticStringRef target @ [Codec msg] @ bytes_u32 (SizeBytes msg)
             @ Data msg))) (callback v acc)" for callback rest acc
      using LogStringInteropEvent_Read_at [OF wf, of "length buffer" buffer callback ts level
          target rest acc] wf
      by (simp add: v Read_def wf_DynamicString_def add.assoc)
    have wr: "Write mem v buffer = Inr (buffer @ (bytes_u64 ts @ [level]
        @ bytes_StaticStringRef target @ [Codec msg] @ bytes_u32 (SizeBytes msg) @ Data msg))"
      using wf by (simp add: v DynamicString_Write_eq WritePOD_def)
    show ?thesis
      using rd wr v by blast
  qed
qed

theorem C3_roundtrip_witness:
  "wf_Elem (LogStringInteropEvent 1000 3 \<lparr>SizeBytes = 0, Codec = UnrealName, Ptr = 0x7000\<rparr>
             \<lparr>SizeBytes = 2, Codec = Ansi, Data = [104, 105]\<rparr>)
   \<and> wf_DynamicString \<lparr>SizeBytes = 2, Codec = Wide, Data = [104, 0]\<rparr>
   \<and> Write empty_Memory
        (LogStringInteropEvent 1000 3 \<lparr>SizeBytes = 0, Codec = UnrealName, Ptr = 0x7000\<rparr>
             \<lparr>SizeBytes = 2, Codec = Ansi, Data = [104, 105]\<rparr>) [1, 37, 0, 0, 0]
     = Inr [1, 37, 0, 0, 0,
            232, 3, 0, 0, 0, 0, 0, 0,  3,  0, 112, 0, 0, 0, 0, 0, 0,  0, 0, 0, 0,  3,  0, 0, 0,
            0,  2, 0, 0, 0,  104, 105]
   \<and> Read T_LogStringInteropEvent (\<lambda>e acc. Inr (acc @ [e]))
        [1, 37, 0, 0, 0,
         232, 3, 0, 0, 0, 0, 0, 0,  3,  0, 112, 0, 0, 0, 0, 0, 0,  0, 0, 0, 0,  3,  0, 0, 0,
         0,  2, 0, 0, 0,  104, 105, 9, 9] 5 []
     = Inr ([LogStringInteropEvent 1000 3 \<lparr>SizeBytes = 0, Codec = UnrealName, Ptr = 0x7000\<rparr>
             \<lparr>SizeBytes = 2, Codec = Ansi, Data = [104, 105]\<rparr>], 37)
   \<and> DynamicString_Read [1, 37, 0, 0, 0, 1, 2, 0, 0, 0, 104, 0] 5
     = Inr (\<lparr>SizeBytes = 2, Codec = Wide, Data = [104, 0]\<rparr>, 12)"
proof -
  let ?v = "LogStringInteropEvent 1000 3 \<lparr>SizeBytes = 0, Codec = UnrealName, Ptr = 0x7000\<rparr>
             \<lparr>SizeBytes = 2, Codec = Ansi, Data = [104, 105]\<rparr>"
  let ?d = "\<lparr>SizeBytes = 2, Codec = Wide, Data = [104, 0]\<rparr> :: DynamicString"
  have wv: "wf_Elem ?v" and wd: "wf_DynamicString ?d"
    by (simp_all add: wf_DynamicString_def Ansi_def Wide_def)
  have t: "TypeOf ?v \<noteq> T_StaticStringDependency" by simp
  from C3_roundtrip [OF t wv wd, of empty_Memory "[1, 37, 0, 0, 0]"]
  obtain payload where
    w: "Write empty_Memory ?v [1, 37, 0, 0, 0] = Inr ([1, 37, 0, 0, 0] @ payload)"
    and r: "\<And>(callback :: Elem \<Rightarrow> Elem list \<Rightarrow> fault + Elem list) rest acc.
         Read (TypeOf ?v) callback ([1, 37, 0, 0, 0] @ payload @ rest) (length [1, 37, 0, 0, 0 :: u8]) acc
         = with_cursor (length ([1, 37, 0, 0, 0] @ payload)) (callback ?v acc)"
    and p: "\<forall>ts level target msg. ?v = LogStringInteropEvent ts level target msg \<longrightarrow>
                payload = bytes_u64 ts @ [level] @ bytes_StaticStringRef target
                          @ [Codec msg] @ bytes_u32 (SizeBytes msg) @ Data msg"
    and dr: "\<And>rest. DynamicString_Read ([1, 37, 0, 0, 0] @ [Codec ?d] @ bytes_u32 (SizeBytes ?d) @ Data ?d @ rest)
              (length [1, 37, 0, 0, 0 :: u8])
            = Inr (?d, length ([1, 37, 0, 0, 0] @ [Codec ?d] @ bytes_u32 (SizeBytes ?d) @ Data ?d))"
    by blast
  have pv: "payload = [232, 3, 0, 0, 0, 0, 0, 0,  3,  0, 112, 0, 0, 0, 0, 0, 0,  0, 0, 0, 0,  3,  0, 0, 0,
            0,  2, 0, 0, 0,  104, 105]"
    using p by (simp add: bytes_u64_def bytes_u32_def bytes_StaticStringRef_def Ansi_def UnrealName_def)
  have l5: "length [1, 37, 0, 0, 0 :: u8] = 5"
    by simp
  have l37: "length ([1, 37, 0, 0, 0] @ payload) = 37"
    unfolding pv by simp
  have l12: "length ([1, 37, 0, 0, 0] @ [Codec ?d] @ bytes_u32 (SizeBytes ?d) @ Data ?d) = 12"
    by simp
  note r' = r [of "\<lambda>e acc. Inr (acc @ [e])" "[9, 9]" "[]", unfolded l5 l37]
  note dr' = dr [of "[]", unfolded l5 l12]
  show ?thesis
    using wv wd w r' dr'
    unfolding pv
    by (simp add: with_cursor_def bytes_u32_def Wide_def)
qed

section \<open>Queue identity: ForEach visits what was pushed\<close>

text \<open>The type lists of the queues (LogBlock.h, MetricBlock.h, ThreadBlock.h).\<close>

definition LogEventQueue :: "ElemType list" where
  "LogEventQueue = [T_LogStaticStrEvent, T_LogStringInteropEvent, T_StaticStringRef]"

definition MetricEventQueue :: "ElemType list" where
  "MetricEventQueue = [T_IntegerMetricEvent, T_FloatMetricEvent]"

definition ThreadEventQueue :: "ElemType list" where
  "ThreadEventQueue = [T_BeginThreadSpanEvent, T_EndThreadSpanEvent]"

fun PushAll :: "Memory \<Rightarrow> ElemType list \<Rightarrow> Elem list \<Rightarrow> HeterogeneousQueue \<Rightarrow> fault + HeterogeneousQueue" where
  "PushAll mem ts [] q = Inr q"
| "PushAll mem ts (event # events) q =
     (case Push mem ts event q of Inl f \<Rightarrow> Inl f | Inr q' \<Rightarrow> PushAll mem ts events q')"

fun VisitAll :: "(Elem \<Rightarrow> 'a \<Rightarrow> fault + 'a) \<Rightarrow> Elem list \<Rightarrow> 'a \<Rightarrow> fault + 'a" where
  "VisitAll v [] acc = Inr acc"
| "VisitAll v (event # events) acc =
     (case v event acc of Inl f \<Rightarrow> Inl f | Inr acc' \<Rightarrow> VisitAll v events acc')"

lemma IndexOfType_bound:
  "IndexOfType t ts = Inr i \<Longrightarrow> length ts \<le> 256 \<Longrightarrow> unat i < length ts"
proof (induction ts arbitrary: i)
  case Nil
  then show ?case by simp
next
  case (Cons HEAD REST)
  show ?case
  proof (cases "t = HEAD")
    case True
    with Cons.prems show ?thesis by simp
  next
    case False
    with Cons.prems obtain j where j: "IndexOfType t REST = Inr j" and i: "i = 1 + j"
      by (auto split: sum.splits)
    from Cons.IH [OF j] Cons.prems(2) have "unat j < length REST" by simp
    moreover from this Cons.prems(2) have "unat (1 + j) = 1 + unat j"
      by (simp add: unat_word_ariths)
    ultimately show ?thesis using i by simp
  qed
qed

lemma IndexOfType_mem:
  "t \<in> set ts \<Longrightarrow> \<exists>i. IndexOfType t ts = Inr i"
  by (induction ts) (auto split: sum.splits)

lemma VisitValue_IndexOfType:
  assumes "IndexOfType t ts = Inr i" and "length ts \<le> 256"
  shows "VisitValue ts i v buffer cursor acc =
     (case (if \<not> IsSizeStatic t then ReadPOD_u32 buffer cursor else Inr (0, cursor)) of
        Inl f \<Rightarrow> Inl f
      | Inr (valueSize, cursor1) \<Rightarrow> Read t v buffer cursor1 acc)"
  using assms
proof (induction ts arbitrary: i)
  case Nil
  then show ?case by simp
next
  case (Cons HEAD REST)
  show ?case
  proof (cases "t = HEAD")
    case True
    from Cons.prems show ?thesis unfolding True by simp
  next
    case False
    with Cons.prems obtain j where j: "IndexOfType t REST = Inr j" and i: "i = 1 + j"
      by (auto split: sum.splits)
    from IndexOfType_bound [OF j] Cons.prems(2) have b: "unat j < 255" by simp
    then have "unat (1 + j) = 1 + unat j"
      by (simp add: unat_word_ariths)
    then have nz: "1 + j \<noteq> 0"
      by (metis add_is_0 unat_0 zero_neq_one)
    from Cons.IH [OF j] Cons.prems(2) nz show ?thesis
      by (simp add: i)
  qed
qed


text \<open>The bytes one \<open>Push\<close> appends: tag, length prefix when the size is not static, payload.\<close>

lemma Push_bytes:
  assumes "TypeOf event \<in> set ts" and "length ts \<le> 256"
    and "TypeOf event \<noteq> T_StaticStringDependency" and "wf_Elem event"
  shows "\<exists>recd. recd \<noteq> []
      \<and> (\<forall>q. Push mem ts event q = Inr \<lparr>Buffer = Buffer q @ recd, NbEvents = NbEvents q + 1\<rparr>)
      \<and> (\<forall>pre rest v acc. ForEach_loop ts v (pre @ recd @ rest) (length pre) acc
            = (case v event acc of Inl f \<Rightarrow> Inl f
               | Inr acc' \<Rightarrow> ForEach_loop ts v (pre @ recd @ rest) (length (pre @ recd)) acc'))"
proof -
  from IndexOfType_mem [OF assms(1)] obtain i where i: "IndexOfType (TypeOf event) ts = Inr i"
    by blast
  note vv = VisitValue_IndexOfType [OF i assms(2)]
  show ?thesis
  proof (cases "IsSizeStatic (TypeOf event)")
    case True
    let ?recd = "[i] @ bytes_of event"
    have push: "Push mem ts event q = Inr \<lparr>Buffer = Buffer q @ ?recd, NbEvents = NbEvents q + 1\<rparr>" for q
      using True by (simp add: Push_def i Write_POD)
    have visit: "ForEach_loop ts v (pre @ ?recd @ rest) (length pre) acc
            = (case v event acc of Inl f \<Rightarrow> Inl f
               | Inr acc' \<Rightarrow> ForEach_loop ts v (pre @ ?recd @ rest) (length (pre @ ?recd)) acc')"
      for pre rest v and acc :: 'a
    proof -
      have rd: "Read (TypeOf event) v (pre @ ?recd @ rest) (length pre + 1) acc
          = with_cursor (length pre + 1 + sizeof (TypeOf event)) (v event acc)"
        using Read_POD_at [OF True, of "length pre + 1" "pre @ [i]" v rest acc] by simp
      show ?thesis
        apply (subst ForEach_loop.simps)
        using True rd
        apply (simp add: vv POD_length with_cursor_def split: sum.splits)
        done
    qed
    show ?thesis
      using push visit by (intro exI [of _ ?recd]) simp
  next
    case False
    with assms(3) obtain t level target msg
      where ev: "event = LogStringInteropEvent t level target msg"
      by (cases event) auto
    with assms(4) have wf: "wf_DynamicString msg" by simp
    let ?payload = "bytes_u64 t @ [level] @ bytes_StaticStringRef target
         @ [Codec msg] @ bytes_u32 (SizeBytes msg) @ Data msg"
    let ?n = "(of_nat (8 + 1 + sizeof_StaticStringRef + unat (DynamicString_GetSize msg))) :: u32"
    let ?recd = "[i] @ bytes_u32 ?n @ ?payload"
    have push: "Push mem ts event q = Inr \<lparr>Buffer = Buffer q @ ?recd, NbEvents = NbEvents q + 1\<rparr>" for q
      using wf i by (simp add: Push_def ev DynamicString_Write_eq WritePOD_def)
    have visit: "ForEach_loop ts v (pre @ ?recd @ rest) (length pre) acc
            = (case v event acc of Inl f \<Rightarrow> Inl f
               | Inr acc' \<Rightarrow> ForEach_loop ts v (pre @ ?recd @ rest) (length (pre @ ?recd)) acc')"
      for pre rest v and acc :: 'a
    proof -
      have len: "ReadPOD_u32 (pre @ ?recd @ rest) (length pre + 1) = Inr (?n, length pre + 1 + 4)"
        using ReadPOD_u32_at [of "length pre + 1" "pre @ [i]" ?n "?payload @ rest"] by simp
      have rd: "Read (TypeOf event) v (pre @ ?recd @ rest) (length pre + 1 + 4) acc
          = with_cursor (length pre + 1 + 4 + 30 + unat (SizeBytes msg)) (v event acc)"
        using LogStringInteropEvent_Read_at [OF wf, of "length pre + 1 + 4" "pre @ [i] @ bytes_u32 ?n"
            v t level target rest acc]
        by (simp add: ev Read_def)
      have l: "length (pre @ ?recd) = length pre + 1 + 4 + 30 + unat (SizeBytes msg)"
        using wf by (simp add: wf_DynamicString_def)
      show ?thesis
        apply (subst ForEach_loop.simps)
        unfolding l
        using False len rd wf
        apply (simp add: vv with_cursor_def wf_DynamicString_def split: sum.splits)
        done
    qed
    show ?thesis
      using push visit by (intro exI [of _ ?recd]) simp
  qed
qed


lemma PushAll_ForEach:
  assumes "length ts \<le> 256"
    and "\<forall>event \<in> set events. TypeOf event \<in> set ts
           \<and> TypeOf event \<noteq> T_StaticStringDependency \<and> wf_Elem event"
  shows "\<exists>bs. (\<forall>q. PushAll mem ts events q
                     = Inr \<lparr>Buffer = Buffer q @ bs, NbEvents = NbEvents q + length events\<rparr>)
      \<and> (\<forall>pre rest v acc. ForEach_loop ts v (pre @ bs @ rest) (length pre) acc
            = (case VisitAll v events acc of Inl f \<Rightarrow> Inl f
               | Inr acc' \<Rightarrow> ForEach_loop ts v (pre @ bs @ rest) (length (pre @ bs)) acc'))"
  using assms(2)
proof (induction events)
  case Nil
  show ?case
    by (intro exI [of _ "[]"]) simp
next
  case (Cons event events)
  from Cons.prems have ev: "TypeOf event \<in> set ts" "TypeOf event \<noteq> T_StaticStringDependency"
    "wf_Elem event"
    by auto
  from Push_bytes [OF ev(1) assms(1) ev(2,3), of mem]
  obtain recd where
    push: "\<And>q. Push mem ts event q = Inr \<lparr>Buffer = Buffer q @ recd, NbEvents = NbEvents q + 1\<rparr>"
    and visit: "\<And>pre rest (v :: Elem \<Rightarrow> 'a \<Rightarrow> fault + 'a) acc.
        ForEach_loop ts v (pre @ recd @ rest) (length pre) acc
        = (case v event acc of Inl f \<Rightarrow> Inl f
           | Inr acc' \<Rightarrow> ForEach_loop ts v (pre @ recd @ rest) (length (pre @ recd)) acc')"
    by blast
  from Cons.IH Cons.prems obtain bs where
    pushes: "\<And>q. PushAll mem ts events q
                = Inr \<lparr>Buffer = Buffer q @ bs, NbEvents = NbEvents q + length events\<rparr>"
    and visits: "\<And>pre rest (v :: Elem \<Rightarrow> 'a \<Rightarrow> fault + 'a) acc.
        ForEach_loop ts v (pre @ bs @ rest) (length pre) acc
        = (case VisitAll v events acc of Inl f \<Rightarrow> Inl f
           | Inr acc' \<Rightarrow> ForEach_loop ts v (pre @ bs @ rest) (length (pre @ bs)) acc')"
    by auto
  have 1: "PushAll mem ts (event # events) q
      = Inr \<lparr>Buffer = Buffer q @ recd @ bs, NbEvents = NbEvents q + length (event # events)\<rparr>"
    for q
    by (simp add: push pushes)
  have 2: "ForEach_loop ts v (pre @ (recd @ bs) @ rest) (length pre) acc
        = (case VisitAll v (event # events) acc of Inl f \<Rightarrow> Inl f
           | Inr acc' \<Rightarrow> ForEach_loop ts v (pre @ (recd @ bs) @ rest)
                         (length (pre @ recd @ bs)) acc')"
    for pre rest and v :: "Elem \<Rightarrow> 'a \<Rightarrow> fault + 'a" and acc
    using visit [of v pre "bs @ rest" acc] visits [of v "pre @ recd" rest]
    by (simp split: sum.splits)
  show ?case
    using 1 2 by (intro exI [of _ "recd @ bs"]) simp
qed


lemma VisitAll_collect: "VisitAll (\<lambda>event visited. Inr (visited @ [event])) events acc = Inr (acc @ events)"
  by (induction events arbitrary: acc) simp_all

lemma ForEach_loop_end: "ForEach_loop ts v buffer (length buffer) acc = Inr acc"
  by (subst ForEach_loop.simps) simp

text \<open>
  Claim C2. Let \<open>events\<close> be pushed, in order, into a new queue with type list \<open>ts\<close>, every
  value well formed and of a type of the list. The pushes succeed, \<open>GetNbEvents\<close> is the
  number of values pushed, and \<open>ForEach\<close> calls the visitor on exactly these values, in the
  order of the pushes: the visitor that appends what it is given to a list ends with
  \<open>events\<close>, and any visitor \<open>v\<close> ends in the state that visiting \<open>events\<close> one after
  the other gives. The type list has at most 256 entries (the tag is a \<open>uint8\<close>) and does
  not hold \<open>StaticStringDependency\<close>, whose serializer has no \<open>Read\<close>, so that \<open>ForEach\<close>
  has no instance for such a queue.
\<close>

theorem C2_queue_identity:
  assumes "length ts \<le> 256"
    and "\<forall>event \<in> set events. TypeOf event \<in> set ts
           \<and> TypeOf event \<noteq> T_StaticStringDependency \<and> wf_Elem event"
  shows "\<exists>q. PushAll mem ts events (HeterogeneousQueue_new bufferSize) = Inr q
      \<and> GetNbEvents q = length events
      \<and> ForEach ts (\<lambda>event visited. Inr (visited @ [event])) q [] = Inr events
      \<and> (\<forall>v acc. ForEach ts v q acc = VisitAll v events acc)"
proof -
  from PushAll_ForEach [OF assms, of mem] obtain bs where
    pushes: "\<And>q. PushAll mem ts events q
                = Inr \<lparr>Buffer = Buffer q @ bs, NbEvents = NbEvents q + length events\<rparr>"
    and visits: "\<And>pre rest (v :: Elem \<Rightarrow> 'a \<Rightarrow> fault + 'a) acc.
        ForEach_loop ts v (pre @ bs @ rest) (length pre) acc
        = (case VisitAll v events acc of Inl f \<Rightarrow> Inl f
           | Inr acc' \<Rightarrow> ForEach_loop ts v (pre @ bs @ rest) (length (pre @ bs)) acc')"
    by blast
  from PushAll_ForEach [OF assms, of mem] obtain bs' where
    pushes': "\<And>q. PushAll mem ts events q
                = Inr \<lparr>Buffer = Buffer q @ bs', NbEvents = NbEvents q + length events\<rparr>"
    and visits': "\<And>pre rest (v :: Elem \<Rightarrow> Elem list \<Rightarrow> fault + Elem list) acc.
        ForEach_loop ts v (pre @ bs' @ rest) (length pre) acc
        = (case VisitAll v events acc of Inl f \<Rightarrow> Inl f
           | Inr acc' \<Rightarrow> ForEach_loop ts v (pre @ bs' @ rest) (length (pre @ bs')) acc')"
    by blast
  from pushes [of "HeterogeneousQueue_new bufferSize"] pushes' [of "HeterogeneousQueue_new bufferSize"]
  have same: "bs' = bs"
    by simp
  let ?q = "\<lparr>Buffer = bs, NbEvents = length events\<rparr>"
  have 1: "PushAll mem ts events (HeterogeneousQueue_new bufferSize) = Inr ?q"
    using pushes [of "HeterogeneousQueue_new bufferSize"] by (simp add: HeterogeneousQueue_new_def)
  have 2: "GetNbEvents ?q = length events"
    by (simp add: GetNbEvents_def)
  have 3: "ForEach ts v ?q acc = VisitAll v events acc" for v :: "Elem \<Rightarrow> 'a \<Rightarrow> fault + 'a" and acc
    using visits [of v "[]" "[]" acc]
    by (simp add: ForEach_def ForEach_loop_end split: sum.splits)
  have 4: "ForEach ts (\<lambda>event visited. Inr (visited @ [event])) ?q [] = Inr events"
    using visits' [of "\<lambda>event visited. Inr (visited @ [event])" "[]" "[]" "[]"]
    by (simp add: same ForEach_def ForEach_loop_end VisitAll_collect)
  show ?thesis
    using 1 2 3 4 by blast
qed

theorem C2_queue_identity_witness:
  "length LogEventQueue \<le> 256
   \<and> PushAll empty_Memory LogEventQueue
        [LogStaticStrEvent 20480 1000,
         LogStringInteropEvent 1001 3 \<lparr>SizeBytes = 0, Codec = UnrealName, Ptr = 28672\<rparr>
           \<lparr>SizeBytes = 2, Codec = Ansi, Data = [104, 105]\<rparr>,
         StaticStringRefValue \<lparr>SizeBytes = 6, Codec = Wide, Ptr = 24576\<rparr>]
        (HeterogeneousQueue_new 4096)
     = Inr \<lparr>Buffer =
          [0, 0, 80, 0, 0, 0, 0, 0, 0, 232, 3, 0, 0, 0, 0, 0, 0,
           1, 32, 0, 0, 0, 233, 3, 0, 0, 0, 0, 0, 0, 3, 0, 112, 0, 0, 0, 0, 0, 0, 0, 0, 0, 0,
              3, 0, 0, 0, 0, 2, 0, 0, 0, 104, 105,
           2, 0, 96, 0, 0, 0, 0, 0, 0, 6, 0, 0, 0, 1, 0, 0, 0],
          NbEvents = 3\<rparr>
   \<and> ForEach LogEventQueue (\<lambda>event visited. Inr (visited @ [event]))
        \<lparr>Buffer =
          [0, 0, 80, 0, 0, 0, 0, 0, 0, 232, 3, 0, 0, 0, 0, 0, 0,
           1, 32, 0, 0, 0, 233, 3, 0, 0, 0, 0, 0, 0, 3, 0, 112, 0, 0, 0, 0, 0, 0, 0, 0, 0, 0,
              3, 0, 0, 0, 0, 2, 0, 0, 0, 104, 105,
           2, 0, 96, 0, 0, 0, 0, 0, 0, 6, 0, 0, 0, 1, 0, 0, 0],
          NbEvents = 3\<rparr> []
     = Inr [LogStaticStrEvent 20480 1000,
         LogStringInteropEvent 1001 3 \<lparr>SizeBytes = 0, Codec = UnrealName, Ptr = 28672\<rparr>
           \<lparr>SizeBytes = 2, Codec = Ansi, Data = [104, 105]\<rparr>,
         StaticStringRefValue \<lparr>SizeBytes = 6, Codec = Wide, Ptr = 24576\<rparr>]"
proof -
  let ?events = "[LogStaticStrEvent 20480 1000,
         LogStringInteropEvent 1001 3 \<lparr>SizeBytes = 0, Codec = UnrealName, Ptr = 28672\<rparr>
           \<lparr>SizeBytes = 2, Codec = Ansi, Data = [104, 105]\<rparr>,
         StaticStringRefValue \<lparr>SizeBytes = 6, Codec = Wide, Ptr = 24576\<rparr>]"
  have len: "length LogEventQueue \<le> 256"
    by (simp add: LogEventQueue_def)
  have ok: "\<forall>event \<in> set ?events. TypeOf event \<in> set LogEventQueue
           \<and> TypeOf event \<noteq> T_StaticStringDependency \<and> wf_Elem event"
    by (simp add: LogEventQueue_def wf_DynamicString_def Ansi_def)
  have ev: "PushAll empty_Memory LogEventQueue ?events (HeterogeneousQueue_new 4096)
     = Inr \<lparr>Buffer =
          [0, 0, 80, 0, 0, 0, 0, 0, 0, 232, 3, 0, 0, 0, 0, 0, 0,
           1, 32, 0, 0, 0, 233, 3, 0, 0, 0, 0, 0, 0, 3, 0, 112, 0, 0, 0, 0, 0, 0, 0, 0, 0, 0,
              3, 0, 0, 0, 0, 2, 0, 0, 0, 104, 105,
           2, 0, 96, 0, 0, 0, 0, 0, 0, 6, 0, 0, 0, 1, 0, 0, 0],
          NbEvents = 3\<rparr>"
    by (simp add: LogEventQueue_def HeterogeneousQueue_new_def Push_def WritePOD_def
        DynamicString_Write_def DynamicString_GetSize_def DynamicString_GetHeaderSize_def
        sizeof_StaticStringRef_def bytes_StaticStringRef_def bytes_u64_def bytes_u32_def
        Ansi_def Wide_def UnrealName_def)
  from C2_queue_identity [OF len ok, of empty_Memory 4096] ev
  show ?thesis
    using len by auto
qed

section \<open>Time, blocks and streams (DualTime.h, EventBlock.h, EventStream.h)\<close>

text \<open>
  \<open>std::wstring\<close> identifiers (GUIDs, tags) are \<open>string\<close>s; a \<open>system_clock\<close> time point
  is its count of ticks.
\<close>

type_synonym wstring = string

record DualTime =
  Timestamp :: u64
  SystemTime :: nat

text \<open>The default constructor: \<open>Timestamp( 0 )\<close>.\<close>

definition DualTime_default :: DualTime where
  "DualTime_default = \<lparr>Timestamp = 0, SystemTime = 0\<rparr>"

record EventBlock =
  StreamId :: wstring
  Begin :: DualTime
  End :: DualTime
  Events :: HeterogeneousQueue
  Capacity :: nat

definition EventBlock_new :: "wstring \<Rightarrow> DualTime \<Rightarrow> nat \<Rightarrow> EventBlock" where
  "EventBlock_new streamId begin bufferSize =
     \<lparr>StreamId = streamId, Begin = begin, End = DualTime_default,
      Events = HeterogeneousQueue_new bufferSize, Capacity = bufferSize\<rparr>"

definition Close :: "DualTime \<Rightarrow> EventBlock \<Rightarrow> EventBlock" where
  "Close end block = block\<lparr>End := end\<rparr>"

definition GetEndTime :: "EventBlock \<Rightarrow> fault + DualTime" where
  "GetEndTime block = (if Timestamp (End block) \<noteq> 0 then Inr (End block) else Inl AssertionFailed)"

text \<open>
  \<open>EventStreamImpl<EventBlockT, BUFFER_PADDING>\<close>. The padding is a template argument:
  128 for the log stream, 32 for the metric stream and for a thread stream. It is the
  first argument of the functions that use it.
\<close>

record EventStream =
  Stream_ProcessId :: wstring
  Stream_StreamId :: wstring
  CurrentBlock :: EventBlock
  FullThreshold :: nat
  Tags :: "wstring list"
  Properties :: "wstring \<Rightarrow> wstring option"

definition LogStream_PADDING :: nat where "LogStream_PADDING = 128"
definition MetricStream_PADDING :: nat where "MetricStream_PADDING = 32"
definition ThreadStream_PADDING :: nat where "ThreadStream_PADDING = 32"

definition EventStreamImpl ::
  "nat \<Rightarrow> wstring \<Rightarrow> wstring \<Rightarrow> EventBlock \<Rightarrow> wstring list \<Rightarrow> fault + EventStream" where
  "EventStreamImpl BUFFER_PADDING processId streamId block tags =
     (if \<not> Capacity block > BUFFER_PADDING then Inl AssertionFailed
      else Inr \<lparr>Stream_ProcessId = processId, Stream_StreamId = streamId, CurrentBlock = block,
                FullThreshold = Capacity block - BUFFER_PADDING, Tags = tags,
                Properties = Map.empty\<rparr>)"

definition MarkFull :: "EventStream \<Rightarrow> EventStream" where
  "MarkFull stream = stream\<lparr>FullThreshold := 0\<rparr>"

text \<open>\<open>SwapBlocks\<close> returns the old block and the stream with the new block as current.\<close>

definition SwapBlocks :: "nat \<Rightarrow> EventBlock \<Rightarrow> EventStream \<Rightarrow> fault + (EventBlock \<times> EventStream)" where
  "SwapBlocks BUFFER_PADDING newBlock stream =
     (let old = CurrentBlock stream in
      if \<not> Capacity newBlock > BUFFER_PADDING then Inl AssertionFailed
      else Inr (old, stream\<lparr>CurrentBlock := newBlock,
                             FullThreshold := Capacity newBlock - BUFFER_PADDING\<rparr>))"

definition IsFull :: "EventStream \<Rightarrow> bool" where
  "IsFull stream \<longleftrightarrow> GetSizeBytes (Events (CurrentBlock stream)) \<ge> FullThreshold stream"

text \<open>\<open>GetCurrentBlock().GetEvents().Push(event)\<close> on a stream.\<close>

definition Stream_Push :: "Memory \<Rightarrow> ElemType list \<Rightarrow> Elem \<Rightarrow> EventStream \<Rightarrow> fault + EventStream" where
  "Stream_Push mem ts event stream =
     (case Push mem ts event (Events (CurrentBlock stream)) of Inl f \<Rightarrow> Inl f
      | Inr q \<Rightarrow> Inr (stream\<lparr>CurrentBlock := (CurrentBlock stream)\<lparr>Events := q\<rparr>\<rparr>))"

section \<open>The dispatch singleton and its sink (Dispatch.h, Dispatch.cpp, EventSink.h)\<close>

record ProcessInfo =
  ProcessId :: wstring
  ParentProcessId :: wstring
  Exe :: wstring
  Username :: wstring
  Computer :: wstring
  Distro :: wstring
  CpuBrand :: wstring
  TscFrequency :: u64
  StartTime :: DualTime

text \<open>
  \<open>EventSink\<close> is an abstract class. A call of one of its methods is recorded, with its
  argument as it is at the call, in the order of the calls and with the sink object that
  receives it. A thread stream is passed by pointer.
\<close>

datatype SinkCall =
    OnStartup ProcessInfo
  | OnShutdown
  | OnInitLogStream EventStream
  | OnInitMetricStream EventStream
  | OnInitThreadStream nat
  | OnProcessLogBlock EventBlock
  | OnProcessMetricBlock EventBlock
  | OnProcessThreadBlock EventBlock

text \<open>
  \<open>AllocNewGuid\<close> is a function pointer into the host; its result depends on how many
  identifiers the host has handed out, which the state counts.
  \<open>Sink\<close> names the sink object. \<open>ThreadStreams\<close> holds pointers.
\<close>

record Dispatch =
  AllocNewGuid :: "nat \<Rightarrow> wstring"
  Sink :: nat
  CurrentProcessInfo :: ProcessInfo
  LogEntries :: EventStream
  LogBufferSize :: nat
  Metrics :: EventStream
  MetricBufferSize :: nat
  ThreadStreams :: "nat list"
  ThreadBufferSize :: nat

text \<open>
  The addresses of the function-local static metadata objects that the instrumentation
  macros of the modelled functions declare.
\<close>

record Statics =
  spanMeta_FlushLogStreamImpl :: u64
  spanMeta_FlushMetricStreamImpl :: u64
  logMeta_OnShutdown :: u64

text \<open>
  The state of the process, as far as the dispatch layer reads and writes it:
  \<^item> \<open>GDispatch\<close>, the singleton pointer (\<open>None\<close> is \<open>nullptr\<close>) with the object it points to;
  \<^item> the thread streams allocated with \<open>new\<close>, a pointer being an index into
    \<open>ThreadStreamHeap\<close>, and \<open>TLS\<close>, the \<open>thread_local\<close> pointer of
    \<open>GetCurrentThreadStream\<close> for each thread;
  \<^item> the host: the clock (\<open>Clock n\<close> is what the \<open>n\<close>-th reading returns), the number of
    identifiers handed out, the static memory;
  \<^item> the calls the sinks have received; the two flags of \<open>RemoteSink\<close> that \<open>OnShutdown\<close>
    writes (whether the flush monitor exists, \<open>RequestShutdown\<close>).
  Calls are atomic: the model has the thread of each call as an argument and no
  interleaving inside a call.
\<close>

record World =
  GDispatch :: "Dispatch option"
  ThreadStreamHeap :: "EventStream list"
  TLS :: "nat \<Rightarrow> nat option"
  Clock :: "nat \<Rightarrow> DualTime"
  ClockReads :: nat
  GuidCalls :: nat
  StaticMemory :: Memory
  StaticAddrs :: Statics
  SinkCalls :: "(nat \<times> SinkCall) list"
  Flusher :: bool
  RequestShutdown :: bool

text \<open>\<open>FPlatformTime::Cycles64()\<close> and \<open>DualTime::Now()\<close>: one reading of the clock each.\<close>

definition Cycles64 :: "World \<Rightarrow> u64 \<times> World" where
  "Cycles64 s = (Timestamp (Clock s (ClockReads s)), s\<lparr>ClockReads := ClockReads s + 1\<rparr>)"

definition Now :: "World \<Rightarrow> DualTime \<times> World" where
  "Now s = (Clock s (ClockReads s), s\<lparr>ClockReads := ClockReads s + 1\<rparr>)"

definition NewGuid :: "(nat \<Rightarrow> wstring) \<Rightarrow> World \<Rightarrow> wstring \<times> World" where
  "NewGuid allocNewGuid s = (allocNewGuid (GuidCalls s), s\<lparr>GuidCalls := GuidCalls s + 1\<rparr>)"

definition CallSink :: "nat \<Rightarrow> SinkCall \<Rightarrow> World \<Rightarrow> World" where
  "CallSink sink call s = s\<lparr>SinkCalls := SinkCalls s @ [(sink, call)]\<rparr>"

text \<open>The constructor of \<open>Dispatch\<close>.\<close>

definition Dispatch_new ::
  "(nat \<Rightarrow> wstring) \<Rightarrow> nat \<Rightarrow> ProcessInfo \<Rightarrow> nat \<Rightarrow> nat \<Rightarrow> nat \<Rightarrow> World
   \<Rightarrow> fault + (Dispatch \<times> World)" where
  "Dispatch_new allocNewGuid sink processInfo logBufferSize metricBufferSize threadBufferSize s =
     (let (logStreamId, s1) = NewGuid allocNewGuid s;
          logBlock = EventBlock_new logStreamId (StartTime processInfo) logBufferSize
      in case EventStreamImpl LogStream_PADDING (ProcessId processInfo) logStreamId logBlock
                [''log''] of Inl f \<Rightarrow> Inl f
         | Inr logEntries \<Rightarrow>
     (let (metricStreamId, s2) = NewGuid allocNewGuid s1;
          metricBlock = EventBlock_new metricStreamId (StartTime processInfo) metricBufferSize
      in case EventStreamImpl MetricStream_PADDING (ProcessId processInfo) metricStreamId
                metricBlock [''metrics''] of Inl f \<Rightarrow> Inl f
         | Inr metrics \<Rightarrow>
             Inr (\<lparr>AllocNewGuid = allocNewGuid, Sink = sink, CurrentProcessInfo = processInfo,
                   LogEntries = logEntries, LogBufferSize = logBufferSize,
                   Metrics = metrics, MetricBufferSize = metricBufferSize,
                   ThreadStreams = [], ThreadBufferSize = threadBufferSize\<rparr>, s2)))"

definition Init ::
  "(nat \<Rightarrow> wstring) \<Rightarrow> ProcessInfo \<Rightarrow> nat \<Rightarrow> nat \<Rightarrow> nat \<Rightarrow> nat \<Rightarrow> World \<Rightarrow> fault + World" where
  "Init allocNewGuid processInfo sink logBufferSize metricBufferSize threadBufferSize s =
     (case GDispatch s of Some dispatch \<Rightarrow> Inr s
      | None \<Rightarrow>
     (case Dispatch_new allocNewGuid sink processInfo logBufferSize metricBufferSize
             threadBufferSize s of Inl f \<Rightarrow> Inl f
      | Inr (dispatch, s1) \<Rightarrow>
          Inr (CallSink sink (OnInitMetricStream (Metrics dispatch))
                (CallSink sink (OnInitLogStream (LogEntries dispatch))
                  (CallSink sink (OnStartup processInfo) (s1\<lparr>GDispatch := Some dispatch\<rparr>))))))"

text \<open>Thread streams.\<close>

definition AllocThreadStream :: "Dispatch \<Rightarrow> World \<Rightarrow> fault + (nat \<times> World)" where
  "AllocThreadStream dispatch s =
     (let (streamId, s1) = NewGuid (AllocNewGuid dispatch) s;
          (now, s2) = Now s1;
          block = EventBlock_new streamId now (ThreadBufferSize dispatch)
      in case EventStreamImpl ThreadStream_PADDING (ProcessId (CurrentProcessInfo dispatch))
                streamId block [''cpu''] of Inl f \<Rightarrow> Inl f
         | Inr stream \<Rightarrow>
             Inr (length (ThreadStreamHeap s2),
                  s2\<lparr>ThreadStreamHeap := ThreadStreamHeap s2 @ [stream]\<rparr>))"

definition PublishThreadStream :: "Dispatch \<Rightarrow> nat \<Rightarrow> World \<Rightarrow> World" where
  "PublishThreadStream dispatch stream s =
     CallSink (Sink dispatch) (OnInitThreadStream stream)
       (s\<lparr>GDispatch := Some (dispatch\<lparr>ThreadStreams := ThreadStreams dispatch @ [stream]\<rparr>)\<rparr>)"

definition GetCurrentThreadStream :: "nat \<Rightarrow> World \<Rightarrow> fault + (nat option \<times> World)" where
  "GetCurrentThreadStream thread s =
     (case TLS s thread of Some ptr \<Rightarrow> Inr (Some ptr, s)
      | None \<Rightarrow>
     (case GDispatch s of None \<Rightarrow> Inr (None, s)
      | Some dispatch \<Rightarrow>
     (case AllocThreadStream dispatch s of Inl f \<Rightarrow> Inl f
      | Inr (ptr, s1) \<Rightarrow>
          Inr (Some ptr, PublishThreadStream dispatch ptr (s1\<lparr>TLS := (TLS s1)(thread \<mapsto> ptr)\<rparr>)))))"

definition FlushThreadStream :: "Dispatch \<Rightarrow> nat \<Rightarrow> World \<Rightarrow> fault + World" where
  "FlushThreadStream dispatch stream s =
     (let (now, s1) = Now s in
      if \<not> stream < length (ThreadStreamHeap s1) then Inl BadPointer
      else
        (let newBlock = EventBlock_new (Stream_StreamId (ThreadStreamHeap s1 ! stream)) now
                          (ThreadBufferSize dispatch)
         in case SwapBlocks ThreadStream_PADDING newBlock (ThreadStreamHeap s1 ! stream) of
              Inl f \<Rightarrow> Inl f
            | Inr (fullBlock, stream') \<Rightarrow>
                Inr (CallSink (Sink dispatch) (OnProcessThreadBlock (Close now fullBlock))
                      (s1\<lparr>ThreadStreamHeap := (ThreadStreamHeap s1)[stream := stream']\<rparr>))))"

definition QueueThreadEvent :: "nat \<Rightarrow> Elem \<Rightarrow> World \<Rightarrow> fault + World" where
  "QueueThreadEvent thread event s =
     (case GetCurrentThreadStream thread s of Inl f \<Rightarrow> Inl f
      | Inr (None, s1) \<Rightarrow> Inr s1
      | Inr (Some stream, s1) \<Rightarrow>
     (if \<not> stream < length (ThreadStreamHeap s1) then Inl BadPointer
      else case Stream_Push (StaticMemory s1) ThreadEventQueue event (ThreadStreamHeap s1 ! stream) of
             Inl f \<Rightarrow> Inl f
           | Inr stream' \<Rightarrow>
     (let s2 = s1\<lparr>ThreadStreamHeap := (ThreadStreamHeap s1)[stream := stream']\<rparr> in
      if IsFull stream' then
        (case GDispatch s2 of None \<Rightarrow> Inr s2
         | Some dispatch \<Rightarrow> FlushThreadStream dispatch stream s2)
      else Inr s2)))"

definition BeginScope :: "nat \<Rightarrow> u64 \<Rightarrow> u64 \<Rightarrow> World \<Rightarrow> fault + World" where
  "BeginScope thread desc timestamp s = QueueThreadEvent thread (BeginThreadSpanEvent desc timestamp) s"

definition EndScope :: "nat \<Rightarrow> u64 \<Rightarrow> u64 \<Rightarrow> World \<Rightarrow> fault + World" where
  "EndScope thread desc timestamp s = QueueThreadEvent thread (EndThreadSpanEvent desc timestamp) s"

text \<open>
  \<open>LGN_SPAN_SCOPE\<close> declares a \<open>SpanGuard\<close>: its constructor reads the clock and calls
  \<open>BeginScope\<close>, its destructor, at the end of the enclosing scope, reads the clock and
  calls \<open>EndScope\<close>.
\<close>

definition SpanGuard_ctor :: "nat \<Rightarrow> u64 \<Rightarrow> World \<Rightarrow> fault + World" where
  "SpanGuard_ctor thread desc s = (let (timestamp, s1) = Cycles64 s in BeginScope thread desc timestamp s1)"

definition SpanGuard_dtor :: "nat \<Rightarrow> u64 \<Rightarrow> World \<Rightarrow> fault + World" where
  "SpanGuard_dtor thread desc s = (let (timestamp, s1) = Cycles64 s in EndScope thread desc timestamp s1)"

text \<open>
  The log stream. \<open>FlushLogStreamImpl\<close> is a member function: it runs on the dispatch
  object, which \<open>GDispatch\<close> holds when it is called. The lock guards have no effect in a
  model without interleaving.
\<close>

definition FlushLogStreamImpl :: "nat \<Rightarrow> World \<Rightarrow> fault + World" where
  "FlushLogStreamImpl thread s =
     (case SpanGuard_ctor thread (spanMeta_FlushLogStreamImpl (StaticAddrs s)) s of Inl f \<Rightarrow> Inl f
      | Inr s1 \<Rightarrow>
     (case GDispatch s1 of None \<Rightarrow> Inl BadPointer
      | Some dispatch \<Rightarrow>
     (let (now, s2) = Now s1;
          newBlock = EventBlock_new (Stream_StreamId (LogEntries dispatch)) now
                       (LogBufferSize dispatch)
      in case SwapBlocks LogStream_PADDING newBlock (LogEntries dispatch) of Inl f \<Rightarrow> Inl f
         | Inr (fullBlock, logEntries) \<Rightarrow>
             SpanGuard_dtor thread (spanMeta_FlushLogStreamImpl (StaticAddrs s))
               (CallSink (Sink dispatch) (OnProcessLogBlock (Close now fullBlock))
                 (s2\<lparr>GDispatch := Some (dispatch\<lparr>LogEntries := logEntries\<rparr>)\<rparr>)))))"

definition QueueLogEntry :: "nat \<Rightarrow> Elem \<Rightarrow> World \<Rightarrow> fault + World" where
  "QueueLogEntry thread event s =
     (case GDispatch s of None \<Rightarrow> Inr s
      | Some dispatch \<Rightarrow>
     (case Stream_Push (StaticMemory s) LogEventQueue event (LogEntries dispatch) of
        Inl f \<Rightarrow> Inl f
      | Inr logEntries \<Rightarrow>
     (let s1 = s\<lparr>GDispatch := Some (dispatch\<lparr>LogEntries := logEntries\<rparr>)\<rparr> in
      if IsFull logEntries then FlushLogStreamImpl thread s1 else Inr s1)))"

definition FlushLogStream :: "nat \<Rightarrow> World \<Rightarrow> fault + World" where
  "FlushLogStream thread s =
     (case GDispatch s of None \<Rightarrow> Inr s | Some dispatch \<Rightarrow> FlushLogStreamImpl thread s)"


definition LogStaticStr :: "nat \<Rightarrow> u64 \<Rightarrow> u64 \<Rightarrow> World \<Rightarrow> fault + World" where
  "LogStaticStr thread desc timestamp s = QueueLogEntry thread (LogStaticStrEvent desc timestamp) s"

text \<open>The metric stream.\<close>

definition FlushMetricStreamImpl :: "nat \<Rightarrow> World \<Rightarrow> fault + World" where
  "FlushMetricStreamImpl thread s =
     (case SpanGuard_ctor thread (spanMeta_FlushMetricStreamImpl (StaticAddrs s)) s of
        Inl f \<Rightarrow> Inl f
      | Inr s1 \<Rightarrow>
     (case GDispatch s1 of None \<Rightarrow> Inl BadPointer
      | Some dispatch \<Rightarrow>
     (let (now, s2) = Now s1;
          newBlock = EventBlock_new (Stream_StreamId (Metrics dispatch)) now
                       (MetricBufferSize dispatch)
      in case SwapBlocks MetricStream_PADDING newBlock (Metrics dispatch) of Inl f \<Rightarrow> Inl f
         | Inr (fullBlock, metrics) \<Rightarrow>
             SpanGuard_dtor thread (spanMeta_FlushMetricStreamImpl (StaticAddrs s))
               (CallSink (Sink dispatch) (OnProcessMetricBlock (Close now fullBlock))
                 (s2\<lparr>GDispatch := Some (dispatch\<lparr>Metrics := metrics\<rparr>)\<rparr>)))))"

definition QueueMetric :: "nat \<Rightarrow> Elem \<Rightarrow> World \<Rightarrow> fault + World" where
  "QueueMetric thread event s =
     (case GDispatch s of None \<Rightarrow> Inr s
      | Some dispatch \<Rightarrow>
     (case Stream_Push (StaticMemory s) MetricEventQueue event (Metrics dispatch) of
        Inl f \<Rightarrow> Inl f
      | Inr metrics \<Rightarrow>
     (let s1 = s\<lparr>GDispatch := Some (dispatch\<lparr>Metrics := metrics\<rparr>)\<rparr> in
      if IsFull metrics then FlushMetricStreamImpl thread s1 else Inr s1)))"

definition FlushMetricStream :: "nat \<Rightarrow> World \<Rightarrow> fault + World" where
  "FlushMetricStream thread s =
     (case GDispatch s of None \<Rightarrow> Inr s | Some dispatch \<Rightarrow> FlushMetricStreamImpl thread s)"

definition IntMetric :: "nat \<Rightarrow> u64 \<Rightarrow> u64 \<Rightarrow> u64 \<Rightarrow> World \<Rightarrow> fault + World" where
  "IntMetric thread desc val timestamp s = QueueMetric thread (IntegerMetricEvent desc val timestamp) s"


text \<open>
  \<open>Shutdown\<close> calls the sink's \<open>OnShutdown\<close> and then clears the pointer. The body of the
  virtual method is the argument \<open>OnShutdown_body\<close>; it runs after the call is recorded.
\<close>

definition Shutdown :: "(World \<Rightarrow> fault + World) \<Rightarrow> World \<Rightarrow> fault + World" where
  "Shutdown OnShutdown_body s =
     (case GDispatch s of None \<Rightarrow> Inr s
      | Some dispatch \<Rightarrow>
     (case OnShutdown_body (CallSink (Sink dispatch) OnShutdown s) of Inl f \<Rightarrow> Inl f
      | Inr s1 \<Rightarrow> Inr (s1\<lparr>GDispatch := None\<rparr>)))"

section \<open>The calls the sink receives, and what thread events leave unchanged\<close>

fun log_block_of :: "nat \<times> SinkCall \<Rightarrow> EventBlock option" where
  "log_block_of (sink, OnProcessLogBlock block) = Some block"
| "log_block_of (sink, call) = None"

fun metric_block_of :: "nat \<times> SinkCall \<Rightarrow> EventBlock option" where
  "metric_block_of (sink, OnProcessMetricBlock block) = Some block"
| "metric_block_of (sink, call) = None"

fun is_thread_call :: "nat \<times> SinkCall \<Rightarrow> bool" where
  "is_thread_call (sink, OnInitThreadStream stream) = True"
| "is_thread_call (sink, OnProcessThreadBlock block) = True"
| "is_thread_call (sink, call) = False"

definition log_blocks :: "(nat \<times> SinkCall) list \<Rightarrow> EventBlock list" where
  "log_blocks calls = List.map_filter log_block_of calls"

definition metric_blocks :: "(nat \<times> SinkCall) list \<Rightarrow> EventBlock list" where
  "metric_blocks calls = List.map_filter metric_block_of calls"

definition wf_World :: "World \<Rightarrow> bool" where
  "wf_World s \<longleftrightarrow>
     (\<forall>thread ptr. TLS s thread = Some ptr \<longrightarrow> ptr < length (ThreadStreamHeap s))
     \<and> (case GDispatch s of None \<Rightarrow> True
        | Some dispatch \<Rightarrow> LogBufferSize dispatch > LogStream_PADDING
            \<and> MetricBufferSize dispatch > MetricStream_PADDING
            \<and> ThreadBufferSize dispatch > ThreadStream_PADDING)"

text \<open>What a call that only touches thread streams leaves as it is.\<close>

definition thread_only :: "World \<Rightarrow> World \<Rightarrow> bool" where
  "thread_only s s' \<longleftrightarrow>
     map_option (\<lambda>d. d\<lparr>ThreadStreams := []\<rparr>) (GDispatch s')
       = map_option (\<lambda>d. d\<lparr>ThreadStreams := []\<rparr>) (GDispatch s)
     \<and> StaticMemory s' = StaticMemory s \<and> StaticAddrs s' = StaticAddrs s
     \<and> Clock s' = Clock s \<and> ClockReads s \<le> ClockReads s'
     \<and> Flusher s' = Flusher s \<and> RequestShutdown s' = RequestShutdown s
     \<and> (\<exists>new. SinkCalls s' = SinkCalls s @ new \<and> list_all is_thread_call new)"

lemma thread_only_refl [simp]: "thread_only s s"
  by (simp add: thread_only_def)

lemma thread_only_trans: "thread_only s s' \<Longrightarrow> thread_only s' s'' \<Longrightarrow> thread_only s s''"
  unfolding thread_only_def by fastforce

lemma log_blocks_append [simp]: "log_blocks (xs @ ys) = log_blocks xs @ log_blocks ys"
  by (simp add: log_blocks_def List.map_filter_def)

lemma metric_blocks_append [simp]: "metric_blocks (xs @ ys) = metric_blocks xs @ metric_blocks ys"
  by (simp add: metric_blocks_def List.map_filter_def)

lemma log_blocks_simps [simp]:
  "log_blocks [] = []"
  "log_blocks (c # cs) = (case log_block_of c of None \<Rightarrow> log_blocks cs | Some b \<Rightarrow> b # log_blocks cs)"
  by (simp_all add: log_blocks_def List.map_filter_def split: option.splits)

lemma metric_blocks_simps [simp]:
  "metric_blocks [] = []"
  "metric_blocks (c # cs) = (case metric_block_of c of None \<Rightarrow> metric_blocks cs | Some b \<Rightarrow> b # metric_blocks cs)"
  by (simp_all add: metric_blocks_def List.map_filter_def split: option.splits)



lemma GetCurrentThreadStream_ok:
  assumes "wf_World s"
  shows "\<exists>r s'. GetCurrentThreadStream thread s = Inr (r, s') \<and> wf_World s' \<and> thread_only s s'
     \<and> (case r of None \<Rightarrow> s' = s \<and> GDispatch s = None
         | Some ptr \<Rightarrow> ptr < length (ThreadStreamHeap s'))"
proof (cases "TLS s thread")
  case (Some ptr)
  with assms show ?thesis
    by (auto simp: GetCurrentThreadStream_def wf_World_def)
next
  case None
  show ?thesis
  proof (cases "GDispatch s")
    case gn: None
    with None assms show ?thesis
      by (simp add: GetCurrentThreadStream_def)
  next
    case (Some dispatch)
    with assms have sz: "ThreadBufferSize dispatch > ThreadStream_PADDING"
      by (simp add: wf_World_def)
    then obtain stream where
      alloc: "AllocThreadStream dispatch s
        = Inr (length (ThreadStreamHeap s),
               s\<lparr>GuidCalls := GuidCalls s + 1, ClockReads := ClockReads s + 1,
                 ThreadStreamHeap := ThreadStreamHeap s @ [stream]\<rparr>)"
      by (simp add: AllocThreadStream_def NewGuid_def Now_def EventStreamImpl_def
          EventBlock_new_def)
    show ?thesis
      using None Some assms sz
      by (auto simp: GetCurrentThreadStream_def alloc PublishThreadStream_def wf_World_def
          thread_only_def CallSink_def less_Suc_eq)
  qed
qed

lemma FlushThreadStream_ok:
  assumes "wf_World s" and "GDispatch s = Some dispatch" and "stream < length (ThreadStreamHeap s)"
  shows "\<exists>s'. FlushThreadStream dispatch stream s = Inr s' \<and> wf_World s' \<and> thread_only s s'"
  using assms
  by (auto simp: FlushThreadStream_def Now_def SwapBlocks_def EventBlock_new_def wf_World_def
      thread_only_def CallSink_def Let_def)

lemma QueueThreadEvent_ok:
  assumes "wf_World s" and "TypeOf event \<in> set ThreadEventQueue"
  shows "\<exists>s'. QueueThreadEvent thread event s = Inr s' \<and> wf_World s' \<and> thread_only s s'"
proof -
  from GetCurrentThreadStream_ok [OF assms(1), of thread] obtain r s1 where
    g: "GetCurrentThreadStream thread s = Inr (r, s1)" and wf1: "wf_World s1"
    and to1: "thread_only s s1"
    and r: "case r of None \<Rightarrow> s1 = s \<and> GDispatch s = None
         | Some ptr \<Rightarrow> ptr < length (ThreadStreamHeap s1)"
    by blast
  show ?thesis
  proof (cases r)
    case None
    with g wf1 to1 show ?thesis
      by (simp add: QueueThreadEvent_def)
  next
    case (Some ptr)
    with r have ptr: "ptr < length (ThreadStreamHeap s1)" by simp
    from assms(2) obtain q where
      push: "Push (StaticMemory s1) ThreadEventQueue event (Events (CurrentBlock (ThreadStreamHeap s1 ! ptr)))
        = Inr q"
      by (cases event) (auto simp: Push_def ThreadEventQueue_def)
    let ?stream' = "(ThreadStreamHeap s1 ! ptr)\<lparr>CurrentBlock := (CurrentBlock (ThreadStreamHeap s1 ! ptr))\<lparr>Events := q\<rparr>\<rparr>"
    let ?s2 = "s1\<lparr>ThreadStreamHeap := (ThreadStreamHeap s1)[ptr := ?stream']\<rparr>"
    have wf2: "wf_World ?s2" and to2: "thread_only s1 ?s2"
      using wf1 by (simp_all add: wf_World_def thread_only_def)
    show ?thesis
    proof (cases "IsFull ?stream' \<and> GDispatch ?s2 \<noteq> None")
      case True
      then obtain dispatch where d: "GDispatch ?s2 = Some dispatch" by auto
      from FlushThreadStream_ok [OF wf2 d, of ptr] ptr obtain s3 where
        f: "FlushThreadStream dispatch ptr ?s2 = Inr s3" and wf3: "wf_World s3"
        and to3: "thread_only ?s2 s3"
        by auto
      have "QueueThreadEvent thread event s = Inr s3"
        using g Some ptr push True d f by (simp add: QueueThreadEvent_def Stream_Push_def Let_def)
      with wf3 thread_only_trans [OF to1 thread_only_trans [OF to2 to3]] show ?thesis
        by blast
    next
      case False
      then have "QueueThreadEvent thread event s = Inr ?s2"
        using g Some ptr push
        by (auto simp: QueueThreadEvent_def Stream_Push_def Let_def split: option.splits)
      with wf2 thread_only_trans [OF to1 to2] show ?thesis
        by blast
    qed
  qed
qed

section \<open>Rotation\<close>

definition dview :: "Dispatch \<Rightarrow> Dispatch" where
  "dview d = d\<lparr>ThreadStreams := []\<rparr>"

lemma thread_only_dispatch:
  assumes "thread_only s s'" and "GDispatch s = Some d"
  shows "\<exists>d'. GDispatch s' = Some d' \<and> LogEntries d' = LogEntries d \<and> Metrics d' = Metrics d
     \<and> LogBufferSize d' = LogBufferSize d \<and> MetricBufferSize d' = MetricBufferSize d
     \<and> ThreadBufferSize d' = ThreadBufferSize d \<and> Sink d' = Sink d
     \<and> AllocNewGuid d' = AllocNewGuid d \<and> CurrentProcessInfo d' = CurrentProcessInfo d"
proof -
  from assms obtain d' where d': "GDispatch s' = Some d'"
    and eq: "d'\<lparr>ThreadStreams := []\<rparr> = d\<lparr>ThreadStreams := []\<rparr>"
    by (auto simp: thread_only_def)
  from eq have "LogEntries (d'\<lparr>ThreadStreams := []\<rparr>) = LogEntries (d\<lparr>ThreadStreams := []\<rparr>)"
    "Metrics (d'\<lparr>ThreadStreams := []\<rparr>) = Metrics (d\<lparr>ThreadStreams := []\<rparr>)"
    "LogBufferSize (d'\<lparr>ThreadStreams := []\<rparr>) = LogBufferSize (d\<lparr>ThreadStreams := []\<rparr>)"
    "MetricBufferSize (d'\<lparr>ThreadStreams := []\<rparr>) = MetricBufferSize (d\<lparr>ThreadStreams := []\<rparr>)"
    "ThreadBufferSize (d'\<lparr>ThreadStreams := []\<rparr>) = ThreadBufferSize (d\<lparr>ThreadStreams := []\<rparr>)"
    "Sink (d'\<lparr>ThreadStreams := []\<rparr>) = Sink (d\<lparr>ThreadStreams := []\<rparr>)"
    "AllocNewGuid (d'\<lparr>ThreadStreams := []\<rparr>) = AllocNewGuid (d\<lparr>ThreadStreams := []\<rparr>)"
    "CurrentProcessInfo (d'\<lparr>ThreadStreams := []\<rparr>) = CurrentProcessInfo (d\<lparr>ThreadStreams := []\<rparr>)"
    by simp_all
  with d' show ?thesis by simp
qed

lemma thread_only_None:
  "thread_only s s' \<Longrightarrow> GDispatch s = None \<Longrightarrow> GDispatch s' = None"
  by (auto simp: thread_only_def)

text \<open>A span guard's constructor or destructor: one reading of the clock, one thread event.\<close>

lemma SpanGuard_ctor_ok:
  assumes "wf_World s"
  shows "\<exists>s'. SpanGuard_ctor thread desc s = Inr s' \<and> wf_World s' \<and> thread_only s s'
     \<and> ClockReads s < ClockReads s'"
proof -
  let ?s1 = "s\<lparr>ClockReads := ClockReads s + 1\<rparr>"
  have wf1: "wf_World ?s1" and to1: "thread_only s ?s1"
    using assms by (simp_all add: wf_World_def thread_only_def)
  from QueueThreadEvent_ok [OF wf1, of "BeginThreadSpanEvent desc (Timestamp (Clock s (ClockReads s)))" thread]
  obtain s' where q: "QueueThreadEvent thread (BeginThreadSpanEvent desc (Timestamp (Clock s (ClockReads s)))) ?s1 = Inr s'"
    and wf': "wf_World s'" and to': "thread_only ?s1 s'"
    by (auto simp: ThreadEventQueue_def)
  from to' have "ClockReads s < ClockReads s'"
    by (simp add: thread_only_def)
  with q wf' thread_only_trans [OF to1 to'] show ?thesis
    by (simp add: SpanGuard_ctor_def Cycles64_def BeginScope_def)
qed

lemma SpanGuard_dtor_ok:
  assumes "wf_World s"
  shows "\<exists>s'. SpanGuard_dtor thread desc s = Inr s' \<and> wf_World s' \<and> thread_only s s'
     \<and> ClockReads s < ClockReads s'"
proof -
  let ?s1 = "s\<lparr>ClockReads := ClockReads s + 1\<rparr>"
  have wf1: "wf_World ?s1" and to1: "thread_only s ?s1"
    using assms by (simp_all add: wf_World_def thread_only_def)
  from QueueThreadEvent_ok [OF wf1, of "EndThreadSpanEvent desc (Timestamp (Clock s (ClockReads s)))" thread]
  obtain s' where q: "QueueThreadEvent thread (EndThreadSpanEvent desc (Timestamp (Clock s (ClockReads s)))) ?s1 = Inr s'"
    and wf': "wf_World s'" and to': "thread_only ?s1 s'"
    by (auto simp: ThreadEventQueue_def)
  from to' have "ClockReads s < ClockReads s'"
    by (simp add: thread_only_def)
  with q wf' thread_only_trans [OF to1 to'] show ?thesis
    by (simp add: SpanGuard_dtor_def Cycles64_def EndScope_def)
qed

text \<open>
  What a rotation of the log stream does: the current block, closed at the time \<open>now\<close>
  read from the clock, goes to the sink; a new empty block that begins at \<open>now\<close> is
  current; the other sink calls are calls about thread streams.
\<close>

definition log_rotated :: "nat \<Rightarrow> World \<Rightarrow> Dispatch \<Rightarrow> World \<Rightarrow> bool" where
  "log_rotated thread s d s' \<longleftrightarrow>
     (\<exists>d' n new1 new2.
        GDispatch s' = Some d' \<and> ClockReads s < n \<and> n < ClockReads s'
        \<and> LogEntries d' = (LogEntries d)
             \<lparr>CurrentBlock := EventBlock_new (Stream_StreamId (LogEntries d)) (Clock s n)
                                (LogBufferSize d),
              FullThreshold := LogBufferSize d - LogStream_PADDING\<rparr>
        \<and> Metrics d' = Metrics d
        \<and> LogBufferSize d' = LogBufferSize d \<and> MetricBufferSize d' = MetricBufferSize d
        \<and> ThreadBufferSize d' = ThreadBufferSize d \<and> Sink d' = Sink d
        \<and> AllocNewGuid d' = AllocNewGuid d \<and> CurrentProcessInfo d' = CurrentProcessInfo d
        \<and> SinkCalls s' = SinkCalls s @ new1
             @ [(Sink d, OnProcessLogBlock (Close (Clock s n) (CurrentBlock (LogEntries d))))] @ new2
        \<and> list_all is_thread_call new1 \<and> list_all is_thread_call new2
        \<and> StaticMemory s' = StaticMemory s \<and> StaticAddrs s' = StaticAddrs s
        \<and> Clock s' = Clock s \<and> Flusher s' = Flusher s \<and> RequestShutdown s' = RequestShutdown s)"

lemma FlushLogStreamImpl_ok:
  assumes "wf_World s" and "GDispatch s = Some d"
  shows "\<exists>s'. FlushLogStreamImpl thread s = Inr s' \<and> wf_World s' \<and> log_rotated thread s d s'"
proof -
  let ?desc = "spanMeta_FlushLogStreamImpl (StaticAddrs s)"
  from SpanGuard_ctor_ok [OF assms(1), of thread ?desc] obtain s1 where
    c: "SpanGuard_ctor thread ?desc s = Inr s1" and wf1: "wf_World s1" and to1: "thread_only s s1"
    and r1: "ClockReads s < ClockReads s1"
    by blast
  from thread_only_dispatch [OF to1 assms(2)] obtain d1 where
    d1: "GDispatch s1 = Some d1" "LogEntries d1 = LogEntries d" "Metrics d1 = Metrics d"
      "LogBufferSize d1 = LogBufferSize d" "MetricBufferSize d1 = MetricBufferSize d"
      "ThreadBufferSize d1 = ThreadBufferSize d" "Sink d1 = Sink d"
      "AllocNewGuid d1 = AllocNewGuid d" "CurrentProcessInfo d1 = CurrentProcessInfo d"
    by blast
  from to1 obtain new1 where
    f1: "StaticMemory s1 = StaticMemory s" "StaticAddrs s1 = StaticAddrs s" "Clock s1 = Clock s"
      "Flusher s1 = Flusher s" "RequestShutdown s1 = RequestShutdown s"
      "SinkCalls s1 = SinkCalls s @ new1" "list_all is_thread_call new1"
    by (auto simp: thread_only_def)
  let ?now = "Clock s (ClockReads s1)"
  let ?logEntries = "(LogEntries d)
             \<lparr>CurrentBlock := EventBlock_new (Stream_StreamId (LogEntries d)) ?now (LogBufferSize d),
              FullThreshold := LogBufferSize d - LogStream_PADDING\<rparr>"
  let ?s3 = "CallSink (Sink d) (OnProcessLogBlock (Close ?now (CurrentBlock (LogEntries d))))
               (s1\<lparr>ClockReads := ClockReads s1 + 1,
                   GDispatch := Some (d1\<lparr>LogEntries := ?logEntries\<rparr>)\<rparr>)"
  from wf1 d1 have sz: "LogBufferSize d > LogStream_PADDING"
    by (simp add: wf_World_def)
  have wf3: "wf_World ?s3"
    using wf1 d1 by (simp add: wf_World_def CallSink_def)
  from SpanGuard_dtor_ok [OF wf3, of thread ?desc] obtain s' where
    e: "SpanGuard_dtor thread ?desc ?s3 = Inr s'" and wf': "wf_World s'"
    and to3: "thread_only ?s3 s'" and r3: "ClockReads ?s3 < ClockReads s'"
    by blast
  have run: "FlushLogStreamImpl thread s = Inr s'"
    using c d1 f1 sz e
    by (simp add: FlushLogStreamImpl_def Now_def SwapBlocks_def EventBlock_new_def Let_def)
  have d3: "GDispatch ?s3 = Some (d1\<lparr>LogEntries := ?logEntries\<rparr>)"
    by (simp add: CallSink_def)
  from thread_only_dispatch [OF to3 d3] obtain d' where
    d': "GDispatch s' = Some d'" "LogEntries d' = ?logEntries" "Metrics d' = Metrics d"
      "LogBufferSize d' = LogBufferSize d" "MetricBufferSize d' = MetricBufferSize d"
      "ThreadBufferSize d' = ThreadBufferSize d" "Sink d' = Sink d"
      "AllocNewGuid d' = AllocNewGuid d" "CurrentProcessInfo d' = CurrentProcessInfo d"
    using d1 by auto
  from to3 obtain new2 where
    f3: "StaticMemory s' = StaticMemory s" "StaticAddrs s' = StaticAddrs s" "Clock s' = Clock s"
      "Flusher s' = Flusher s" "RequestShutdown s' = RequestShutdown s"
      "SinkCalls s' = SinkCalls s @ new1
         @ [(Sink d, OnProcessLogBlock (Close ?now (CurrentBlock (LogEntries d))))] @ new2"
      "list_all is_thread_call new2"
    using f1 by (auto simp: thread_only_def CallSink_def)
  have "log_rotated thread s d s'"
    unfolding log_rotated_def
    using d' f3 f1(7) r1 r3
    by (intro exI [of _ d'] exI [of _ "ClockReads s1"] exI [of _ new1] exI [of _ new2])
      (simp add: CallSink_def)
  with run wf' show ?thesis
    by blast
qed

section \<open>The events of the blocks\<close>



definition represents :: "Memory \<Rightarrow> ElemType list \<Rightarrow> EventBlock \<Rightarrow> Elem list \<Rightarrow> bool" where
  "represents mem ts block events \<longleftrightarrow>
     PushAll mem ts events (HeterogeneousQueue_new (Capacity block)) = Inr (Events block)
     \<and> (\<forall>event \<in> set events. TypeOf event \<in> set ts
           \<and> TypeOf event \<noteq> T_StaticStringDependency \<and> wf_Elem event)"





lemma represents_new [simp]: "represents mem ts (EventBlock_new streamId begin bufferSize) []"
  by (simp add: represents_def EventBlock_new_def HeterogeneousQueue_new_def)

lemma represents_Close [simp]: "represents mem ts (Close now block) events = represents mem ts block events"
  by (simp add: represents_def Close_def)













text \<open>
  What a rotation of the metric stream does: the current block, closed at the time \<open>now\<close>
  read from the clock, goes to the sink; a new empty block that begins at \<open>now\<close> is
  current; the other sink calls are calls about thread streams.
\<close>

definition metric_rotated :: "nat \<Rightarrow> World \<Rightarrow> Dispatch \<Rightarrow> World \<Rightarrow> bool" where
  "metric_rotated thread s d s' \<longleftrightarrow>
     (\<exists>d' n new1 new2.
        GDispatch s' = Some d' \<and> ClockReads s < n \<and> n < ClockReads s'
        \<and> Metrics d' = (Metrics d)
             \<lparr>CurrentBlock := EventBlock_new (Stream_StreamId (Metrics d)) (Clock s n)
                                (MetricBufferSize d),
              FullThreshold := MetricBufferSize d - MetricStream_PADDING\<rparr>
        \<and> LogEntries d' = LogEntries d
        \<and> MetricBufferSize d' = MetricBufferSize d \<and> LogBufferSize d' = LogBufferSize d
        \<and> ThreadBufferSize d' = ThreadBufferSize d \<and> Sink d' = Sink d
        \<and> AllocNewGuid d' = AllocNewGuid d \<and> CurrentProcessInfo d' = CurrentProcessInfo d
        \<and> SinkCalls s' = SinkCalls s @ new1
             @ [(Sink d, OnProcessMetricBlock (Close (Clock s n) (CurrentBlock (Metrics d))))] @ new2
        \<and> list_all is_thread_call new1 \<and> list_all is_thread_call new2
        \<and> StaticMemory s' = StaticMemory s \<and> StaticAddrs s' = StaticAddrs s
        \<and> Clock s' = Clock s \<and> Flusher s' = Flusher s \<and> RequestShutdown s' = RequestShutdown s)"

lemma FlushMetricStreamImpl_ok:
  assumes "wf_World s" and "GDispatch s = Some d"
  shows "\<exists>s'. FlushMetricStreamImpl thread s = Inr s' \<and> wf_World s' \<and> metric_rotated thread s d s'"
proof -
  let ?desc = "spanMeta_FlushMetricStreamImpl (StaticAddrs s)"
  from SpanGuard_ctor_ok [OF assms(1), of thread ?desc] obtain s1 where
    c: "SpanGuard_ctor thread ?desc s = Inr s1" and wf1: "wf_World s1" and to1: "thread_only s s1"
    and r1: "ClockReads s < ClockReads s1"
    by blast
  from thread_only_dispatch [OF to1 assms(2)] obtain d1 where
    d1: "GDispatch s1 = Some d1" "Metrics d1 = Metrics d" "LogEntries d1 = LogEntries d"
      "MetricBufferSize d1 = MetricBufferSize d" "LogBufferSize d1 = LogBufferSize d"
      "ThreadBufferSize d1 = ThreadBufferSize d" "Sink d1 = Sink d"
      "AllocNewGuid d1 = AllocNewGuid d" "CurrentProcessInfo d1 = CurrentProcessInfo d"
    by blast
  from to1 obtain new1 where
    f1: "StaticMemory s1 = StaticMemory s" "StaticAddrs s1 = StaticAddrs s" "Clock s1 = Clock s"
      "Flusher s1 = Flusher s" "RequestShutdown s1 = RequestShutdown s"
      "SinkCalls s1 = SinkCalls s @ new1" "list_all is_thread_call new1"
    by (auto simp: thread_only_def)
  let ?now = "Clock s (ClockReads s1)"
  let ?metrics = "(Metrics d)
             \<lparr>CurrentBlock := EventBlock_new (Stream_StreamId (Metrics d)) ?now (MetricBufferSize d),
              FullThreshold := MetricBufferSize d - MetricStream_PADDING\<rparr>"
  let ?s3 = "CallSink (Sink d) (OnProcessMetricBlock (Close ?now (CurrentBlock (Metrics d))))
               (s1\<lparr>ClockReads := ClockReads s1 + 1,
                   GDispatch := Some (d1\<lparr>Metrics := ?metrics\<rparr>)\<rparr>)"
  from wf1 d1 have sz: "MetricBufferSize d > MetricStream_PADDING"
    by (simp add: wf_World_def)
  have wf3: "wf_World ?s3"
    using wf1 d1 by (simp add: wf_World_def CallSink_def)
  from SpanGuard_dtor_ok [OF wf3, of thread ?desc] obtain s' where
    e: "SpanGuard_dtor thread ?desc ?s3 = Inr s'" and wf': "wf_World s'"
    and to3: "thread_only ?s3 s'" and r3: "ClockReads ?s3 < ClockReads s'"
    by blast
  have run: "FlushMetricStreamImpl thread s = Inr s'"
    using c d1 f1 sz e
    by (simp add: FlushMetricStreamImpl_def Now_def SwapBlocks_def EventBlock_new_def Let_def)
  have d3: "GDispatch ?s3 = Some (d1\<lparr>Metrics := ?metrics\<rparr>)"
    by (simp add: CallSink_def)
  from thread_only_dispatch [OF to3 d3] obtain d' where
    d': "GDispatch s' = Some d'" "Metrics d' = ?metrics" "LogEntries d' = LogEntries d"
      "MetricBufferSize d' = MetricBufferSize d" "LogBufferSize d' = LogBufferSize d"
      "ThreadBufferSize d' = ThreadBufferSize d" "Sink d' = Sink d"
      "AllocNewGuid d' = AllocNewGuid d" "CurrentProcessInfo d' = CurrentProcessInfo d"
    using d1 by auto
  from to3 obtain new2 where
    f3: "StaticMemory s' = StaticMemory s" "StaticAddrs s' = StaticAddrs s" "Clock s' = Clock s"
      "Flusher s' = Flusher s" "RequestShutdown s' = RequestShutdown s"
      "SinkCalls s' = SinkCalls s @ new1
         @ [(Sink d, OnProcessMetricBlock (Close ?now (CurrentBlock (Metrics d))))] @ new2"
      "list_all is_thread_call new2"
    using f1 by (auto simp: thread_only_def CallSink_def)
  have "metric_rotated thread s d s'"
    unfolding metric_rotated_def
    using d' f3 f1(7) r1 r3
    by (intro exI [of _ d'] exI [of _ "ClockReads s1"] exI [of _ new1] exI [of _ new2])
      (simp add: CallSink_def)
  with run wf' show ?thesis
    by blast
qed








section \<open>Sequences of calls\<close>



















section \<open>A concrete process\<close>

definition guid0 :: "nat \<Rightarrow> wstring" where
  "guid0 n = (if n = 0 then ''guid-0'' else if n = 1 then ''guid-1'' else ''guid-n'')"

definition processInfo0 :: ProcessInfo where
  "processInfo0 = \<lparr>ProcessId = ''process'', ParentProcessId = '''', Exe = ''editor'',
     Username = ''user'', Computer = ''host'', Distro = ''Windows'', CpuBrand = ''cpu'',
     TscFrequency = 10000000, StartTime = \<lparr>Timestamp = 100, SystemTime = 5000\<rparr>\<rparr>"

definition world0 :: World where
  "world0 = \<lparr>GDispatch = None, ThreadStreamHeap = [], TLS = Map.empty,
     Clock = (\<lambda>n. \<lparr>Timestamp = 1000 + of_nat n, SystemTime = 6000 + n\<rparr>), ClockReads = 0,
     GuidCalls = 0, StaticMemory = empty_Memory,
     StaticAddrs = \<lparr>spanMeta_FlushLogStreamImpl = 36864, spanMeta_FlushMetricStreamImpl = 37120,
                    logMeta_OnShutdown = 37376\<rparr>,
     SinkCalls = [], Flusher = True, RequestShutdown = False\<rparr>"




section \<open>Shutdown (Dispatch.cpp, Remote.cpp)\<close>

text \<open>
  \<open>RemoteSink::OnShutdown\<close>, the body of \<open>OnShutdown\<close> in the one sink class of the
  sources: \<open>LGN_LOG_STATIC\<close> reads the clock and calls \<open>LogStaticStr\<close> with the address
  of its static \<open>LogMetadata\<close>; the flush monitor is destroyed; both streams are flushed;
  \<open>RequestShutdown\<close> is set. Waking and joining the worker thread is outside the model.
  The other methods of \<open>RemoteSink\<close> put a request into the queue of the worker thread
  and count it (\<open>IncrementQueueSize\<close>, which opens a span and emits the metric
  \<open>QueueSize\<close>); they are calls of the abstract sink here, and the events that
  \<open>RemoteSink\<close> emits about itself in them are not part of the model.
\<close>

definition RemoteSink_OnShutdown :: "nat \<Rightarrow> World \<Rightarrow> fault + World" where
  "RemoteSink_OnShutdown thread s =
     (let (timestamp, s1) = Cycles64 s in
      case LogStaticStr thread (logMeta_OnShutdown (StaticAddrs s)) timestamp s1 of
        Inl f \<Rightarrow> Inl f
      | Inr s2 \<Rightarrow>
     (case FlushLogStream thread (s2\<lparr>Flusher := False\<rparr>) of Inl f \<Rightarrow> Inl f
      | Inr s3 \<Rightarrow>
     (case FlushMetricStream thread s3 of Inl f \<Rightarrow> Inl f
      | Inr s4 \<Rightarrow> Inr (s4\<lparr>RequestShutdown := True\<rparr>))))"

text \<open>One call after another, stopping at the first fault.\<close>

definition and_then :: "fault + World \<Rightarrow> (World \<Rightarrow> fault + World) \<Rightarrow> fault + World" where
  "and_then r f = (case r of Inl e \<Rightarrow> Inl e | Inr s \<Rightarrow> f s)"







lemmas run_defs = world0_def guid0_def Init_def Dispatch_new_def NewGuid_def EventStreamImpl_def
  EventBlock_new_def CallSink_def LogStream_PADDING_def MetricStream_PADDING_def
  ThreadStream_PADDING_def LogStaticStr_def QueueLogEntry_def Stream_Push_def Push_def
  LogEventQueue_def MetricEventQueue_def HeterogeneousQueue_new_def WritePOD_def IsFull_def
  GetSizeBytes_def GetNbEvents_def bytes_u64_def IntMetric_def QueueMetric_def
  FlushLogStreamImpl_def FlushMetricStreamImpl_def FlushLogStream_def FlushMetricStream_def
  SpanGuard_ctor_def SpanGuard_dtor_def Cycles64_def Now_def BeginScope_def EndScope_def
  QueueThreadEvent_def GetCurrentThreadStream_def AllocThreadStream_def PublishThreadStream_def
  FlushThreadStream_def ThreadEventQueue_def SwapBlocks_def Close_def Shutdown_def
  RemoteSink_OnShutdown_def and_then_def Let_def




section \<open>What the sink has received when OnShutdown returns\<close>















section \<open>Dependency extraction (LogDependencies.h, MetricDependencies.h, ThreadDependencies.h)\<close>

text \<open>
  The three extractor structs have the same two members: the set \<open>Ids\<close> of the pointers
  seen so far (\<open>TSet<const void*>\<close>) and the queue \<open>Dependencies\<close>, whose type list is
  \<open>StaticStringDependency\<close> and the metadata dependency of the kind of block.
\<close>

definition LogDependenciesQueue :: "ElemType list" where
  "LogDependenciesQueue = [T_StaticStringDependency, T_LogMetadataDependency]"

definition MetricDependenciesQueue :: "ElemType list" where
  "MetricDependenciesQueue = [T_StaticStringDependency, T_MetricMetadataDependency]"

definition ThreadDependenciesQueue :: "ElemType list" where
  "ThreadDependenciesQueue = [T_StaticStringDependency, T_SpanMetadataDependency]"

record ExtractDependencies =
  Ids :: "u64 set"
  Dependencies :: HeterogeneousQueue

text \<open>The constructors: \<open>Dependencies( 1024*1024 )\<close>.\<close>

definition ExtractDependencies_new :: ExtractDependencies where
  "ExtractDependencies_new = \<lparr>Ids = {}, Dependencies = HeterogeneousQueue_new (1024 * 1024)\<rparr>"

text \<open>\<open>Ids.Add( p, &alreadyInSet )\<close>\<close>

definition Ids_Add :: "u64 \<Rightarrow> ExtractDependencies \<Rightarrow> bool \<times> ExtractDependencies" where
  "Ids_Add p x = (p \<in> Ids x, x\<lparr>Ids := insert p (Ids x)\<rparr>)"

text \<open>
  \<open>operator()( const StaticStringRef& str )\<close>, the same text in the three structs; \<open>ts\<close>
  is the type list of the struct's \<open>Dependencies\<close>.
\<close>

definition Extract_StaticStringRef ::
  "ElemType list \<Rightarrow> Memory \<Rightarrow> StaticStringRef \<Rightarrow> ExtractDependencies \<Rightarrow> fault + ExtractDependencies" where
  "Extract_StaticStringRef ts mem str x =
     (let (alreadyInSet, x1) = Ids_Add (GetID str) x in
      if \<not> alreadyInSet then
        (case Push mem ts (StaticStringDependency str) (Dependencies x1) of Inl f \<Rightarrow> Inl f
         | Inr q \<Rightarrow> Inr (x1\<lparr>Dependencies := q\<rparr>))
      else Inr x1)"

text \<open>\<open>(*this)( StaticStringRef( p ) )\<close> for a \<open>const TCHAR* p\<close> of a metadata record.\<close>

definition Extract_TCHAR ::
  "ElemType list \<Rightarrow> Memory \<Rightarrow> u64 \<Rightarrow> ExtractDependencies \<Rightarrow> fault + ExtractDependencies" where
  "Extract_TCHAR ts mem p x =
     (case StaticStringRef_wide mem p of Inl f \<Rightarrow> Inl f
      | Inr str \<Rightarrow> Extract_StaticStringRef ts mem str x)"

text \<open>\<open>ExtractLogDependencies\<close>: \<open>operator()( const LogMetadata* logDesc )\<close>, then the events.\<close>

definition ExtractLogDependencies_LogMetadata ::
  "Memory \<Rightarrow> u64 \<Rightarrow> ExtractDependencies \<Rightarrow> fault + ExtractDependencies" where
  "ExtractLogDependencies_LogMetadata mem logDesc x =
     (let (alreadyInSet, x1) = Ids_Add logDesc x in
      if \<not> alreadyInSet then
        (case LogMetadatas mem logDesc of None \<Rightarrow> Inl BadPointer
         | Some (LogMetadata target msg file line level) \<Rightarrow>
        (case Extract_TCHAR LogDependenciesQueue mem target x1 of Inl f \<Rightarrow> Inl f
         | Inr x2 \<Rightarrow>
        (case Extract_TCHAR LogDependenciesQueue mem msg x2 of Inl f \<Rightarrow> Inl f
         | Inr x3 \<Rightarrow>
        (case Extract_TCHAR LogDependenciesQueue mem file x3 of Inl f \<Rightarrow> Inl f
         | Inr x4 \<Rightarrow>
        (case Push mem LogDependenciesQueue
                (LogMetadataDependency logDesc target msg file line level) (Dependencies x4) of
           Inl f \<Rightarrow> Inl f
         | Inr q \<Rightarrow> Inr (x4\<lparr>Dependencies := q\<rparr>))))))
      else Inr x1)"

fun ExtractLogDependencies :: "Memory \<Rightarrow> Elem \<Rightarrow> ExtractDependencies \<Rightarrow> fault + ExtractDependencies" where
  "ExtractLogDependencies mem (StaticStringRefValue str) x =
     Extract_StaticStringRef LogDependenciesQueue mem str x"
| "ExtractLogDependencies mem (LogStringInteropEvent timestamp level target msg) x =
     Extract_StaticStringRef LogDependenciesQueue mem target x"
| "ExtractLogDependencies mem (LogStaticStrEvent desc timestamp) x =
     ExtractLogDependencies_LogMetadata mem desc x"
| "ExtractLogDependencies mem event x = Inl NotInTypeList"

text \<open>\<open>ExtractMetricDependencies\<close>\<close>

definition ExtractMetricDependencies_MetricMetadata ::
  "Memory \<Rightarrow> u64 \<Rightarrow> ExtractDependencies \<Rightarrow> fault + ExtractDependencies" where
  "ExtractMetricDependencies_MetricMetadata mem metricDesc x =
     (let (alreadyInSet, x1) = Ids_Add metricDesc x in
      if \<not> alreadyInSet then
        (case MetricMetadatas mem metricDesc of None \<Rightarrow> Inl BadPointer
         | Some (MetricMetadata lod name unit target file line) \<Rightarrow>
        (case Extract_TCHAR MetricDependenciesQueue mem name x1 of Inl f \<Rightarrow> Inl f
         | Inr x2 \<Rightarrow>
        (case Extract_TCHAR MetricDependenciesQueue mem unit x2 of Inl f \<Rightarrow> Inl f
         | Inr x3 \<Rightarrow>
        (case Extract_TCHAR MetricDependenciesQueue mem target x3 of Inl f \<Rightarrow> Inl f
         | Inr x4 \<Rightarrow>
        (case Extract_TCHAR MetricDependenciesQueue mem file x4 of Inl f \<Rightarrow> Inl f
         | Inr x5 \<Rightarrow>
        (case Push mem MetricDependenciesQueue
                (MetricMetadataDependency metricDesc lod name unit target file line)
                (Dependencies x5) of
           Inl f \<Rightarrow> Inl f
         | Inr q \<Rightarrow> Inr (x5\<lparr>Dependencies := q\<rparr>)))))))
      else Inr x1)"

fun ExtractMetricDependencies :: "Memory \<Rightarrow> Elem \<Rightarrow> ExtractDependencies \<Rightarrow> fault + ExtractDependencies" where
  "ExtractMetricDependencies mem (IntegerMetricEvent desc val timestamp) x =
     ExtractMetricDependencies_MetricMetadata mem desc x"
| "ExtractMetricDependencies mem (FloatMetricEvent desc val timestamp) x =
     ExtractMetricDependencies_MetricMetadata mem desc x"
| "ExtractMetricDependencies mem event x = Inl NotInTypeList"

text \<open>\<open>ExtractThreadDependencies\<close>\<close>

definition ExtractThreadDependencies_SpanMetadata ::
  "Memory \<Rightarrow> u64 \<Rightarrow> ExtractDependencies \<Rightarrow> fault + ExtractDependencies" where
  "ExtractThreadDependencies_SpanMetadata mem desc x =
     (let (alreadyInSet, x1) = Ids_Add desc x in
      if \<not> alreadyInSet then
        (case SpanMetadatas mem desc of None \<Rightarrow> Inl BadPointer
         | Some (SpanMetadata name target file line) \<Rightarrow>
        (case Extract_TCHAR ThreadDependenciesQueue mem name x1 of Inl f \<Rightarrow> Inl f
         | Inr x2 \<Rightarrow>
        (case Extract_TCHAR ThreadDependenciesQueue mem target x2 of Inl f \<Rightarrow> Inl f
         | Inr x3 \<Rightarrow>
        (case Extract_TCHAR ThreadDependenciesQueue mem file x3 of Inl f \<Rightarrow> Inl f
         | Inr x4 \<Rightarrow>
        (case Push mem ThreadDependenciesQueue
                (SpanMetadataDependency desc name target file line) (Dependencies x4) of
           Inl f \<Rightarrow> Inl f
         | Inr q \<Rightarrow> Inr (x4\<lparr>Dependencies := q\<rparr>))))))
      else Inr x1)"

fun ExtractThreadDependencies :: "Memory \<Rightarrow> Elem \<Rightarrow> ExtractDependencies \<Rightarrow> fault + ExtractDependencies" where
  "ExtractThreadDependencies mem (BeginThreadSpanEvent desc timestamp) x =
     ExtractThreadDependencies_SpanMetadata mem desc x"
| "ExtractThreadDependencies mem (EndThreadSpanEvent desc timestamp) x =
     ExtractThreadDependencies_SpanMetadata mem desc x"
| "ExtractThreadDependencies mem event x = Inl NotInTypeList"

text \<open>
  \<open>ExtractBlockDependencies\<close> (InsertBlockRequest.cpp), one overload for each kind of
  block: a new extractor visits the events of the block. \<open>BlockT\<close> names the overload;
  it gives the type list of the block's queue and the extractor.
\<close>

datatype BlockT = LogBlock | MetricBlock | ThreadBlock

fun EventQueue :: "BlockT \<Rightarrow> ElemType list" where
  "EventQueue LogBlock = LogEventQueue"
| "EventQueue MetricBlock = MetricEventQueue"
| "EventQueue ThreadBlock = ThreadEventQueue"


fun Extractor :: "BlockT \<Rightarrow> Memory \<Rightarrow> Elem \<Rightarrow> ExtractDependencies \<Rightarrow> fault + ExtractDependencies" where
  "Extractor LogBlock = ExtractLogDependencies"
| "Extractor MetricBlock = ExtractMetricDependencies"
| "Extractor ThreadBlock = ExtractThreadDependencies"

definition ExtractBlockDependencies :: "Memory \<Rightarrow> BlockT \<Rightarrow> EventBlock \<Rightarrow> fault + ExtractDependencies" where
  "ExtractBlockDependencies mem T block =
     ForEach (EventQueue T) (Extractor T mem) (Events block) ExtractDependencies_new"

section \<open>The block request (InsertBlockRequest.h)\<close>

text \<open>
  What \<open>FormatBlockRequest\<close> takes from the host: the text of a new GUID, the two
  number and time formatters, \<open>FJsonSerializer::Serialize\<close> (\<open>None\<close> when it returns
  \<open>false\<close>, else the text written) and \<open>CompressBuffer\<close> on the bytes it is given.
\<close>

record Host =
  NewGuid_ToString :: wstring
  FormatTimeIso8601 :: "DualTime \<Rightarrow> string"
  to_string :: "nat \<Rightarrow> string"
  Serialize :: "(string \<times> string) list \<Rightarrow> u16 list option"
  CompressBuffer :: "bytes \<Rightarrow> bytes"

text \<open>The fields of \<open>blockInfo\<close>, in the order they are set.\<close>

definition BlockInfo :: "Host \<Rightarrow> EventBlock \<Rightarrow> fault + (string \<times> string) list" where
  "BlockInfo host block =
     (case GetEndTime block of Inl f \<Rightarrow> Inl f
      | Inr endTime \<Rightarrow>
          Inr [(''block_id'', NewGuid_ToString host),
               (''stream_id'', StreamId block),
               (''begin_time'', FormatTimeIso8601 host (Begin block)),
               (''begin_ticks'', to_string host (unat (Timestamp (Begin block)))),
               (''end_time'', FormatTimeIso8601 host endTime),
               (''end_ticks'', to_string host (unat (Timestamp endTime))),
               (''nb_objects'', to_string host (GetNbEvents (Events block)))])"

text \<open>
  The result of \<open>FormatBlockRequest\<close>: the bytes returned and the lines it logs with
  \<open>UE_LOG\<close>.
\<close>

record BlockRequest =
  Content :: bytes
  LogLines :: "string list"

text \<open>\<open>CompressBuffer( queue.GetPtr(), queue.GetSizeBytes() )\<close>\<close>

definition Compress_queue :: "Host \<Rightarrow> HeterogeneousQueue \<Rightarrow> fault + bytes" where
  "Compress_queue host queue =
     (case GetPtr queue of Inl f \<Rightarrow> Inl f
      | Inr ptr \<Rightarrow> Inr (CompressBuffer host (take (GetSizeBytes queue) ptr)))"

text \<open>The \<open>uint32\<close> size of a compressed buffer, then its bytes when there are some.\<close>

definition Append_compressed :: "bytes \<Rightarrow> bytes \<Rightarrow> bytes" where
  "Append_compressed compressed buffer =
     (let buffer1 = WritePOD (bytes_u32 (of_nat (length compressed))) buffer in
      if length compressed > 0 then buffer1 @ compressed else buffer1)"

definition FormatBlockRequest :: "Host \<Rightarrow> Memory \<Rightarrow> BlockT \<Rightarrow> EventBlock \<Rightarrow> fault + BlockRequest" where
  "FormatBlockRequest host mem T block =
     (let queue = Events block in
      case ExtractBlockDependencies mem T block of Inl f \<Rightarrow> Inl f
      | Inr depExtrator \<Rightarrow>
     (case BlockInfo host block of Inl f \<Rightarrow> Inl f
      | Inr blockInfo \<Rightarrow>
     (case Serialize host blockInfo of
        None \<Rightarrow> Inr \<lparr>Content = [], LogLines = [''Error formatting block info as json'']\<rparr>
      | Some jsonText \<Rightarrow>
     (case DynamicString_Write (DynamicString_wide jsonText) [] of Inl f \<Rightarrow> Inl f
      | Inr buffer \<Rightarrow>
     (case Compress_queue host (Dependencies depExtrator) of Inl f \<Rightarrow> Inl f
      | Inr compressedDep \<Rightarrow>
     (let buffer1 = Append_compressed compressedDep buffer in
      case Compress_queue host queue of Inl f \<Rightarrow> Inl f
      | Inr compressedObj \<Rightarrow>
     (let buffer2 = Append_compressed compressedObj buffer1 in
      if buffer2 = [] then Inl OutOfBounds
      else Inr \<lparr>Content = buffer2, LogLines = []\<rparr>)))))))"

lemma length_wide_bytes: "length (wide_bytes cs) = 2 * length cs"
  by (induction cs) (simp_all add: wide_bytes_def bytes_u16_def)

lemma unat_of_nat_le: "unat (of_nat n :: u32) \<le> n"
  by (simp add: unat_of_nat)

lemma wf_DynamicString_wide: "wf_DynamicString (DynamicString_wide str)"
  using unat_of_nat_le [of "length str * 2"]
  by (simp add: wf_DynamicString_def DynamicString_wide_def Let_def length_wide_bytes Wide_def Ansi_def)

lemma DynamicString_Write_wide:
  "\<exists>buffer. DynamicString_Write (DynamicString_wide str) [] = Inr buffer"
  using DynamicString_Write_eq [OF wf_DynamicString_wide, of str "[]"] by simp

lemma ExtractBlockDependencies_empty:
  "Buffer (Events block) = [] \<Longrightarrow> ExtractBlockDependencies mem T block = Inr ExtractDependencies_new"
  using ForEach_loop_end [of "EventQueue T" "Extractor T mem" "[]" ExtractDependencies_new]
  by (simp add: ExtractBlockDependencies_def ForEach_def)

lemma FormatBlockRequest_empty:
  assumes "Buffer (Events block) = []" and "BlockInfo host block = Inr blockInfo"
    and "Serialize host blockInfo = Some jsonText"
  shows "FormatBlockRequest host mem T block = Inl OutOfBounds"
proof -
  obtain buffer where "DynamicString_Write (DynamicString_wide jsonText) [] = Inr buffer"
    using DynamicString_Write_wide by blast
  then show ?thesis
    using assms ExtractBlockDependencies_empty [OF assms(1), of mem T]
    by (simp add: FormatBlockRequest_def Compress_queue_def GetPtr_def ExtractDependencies_new_def
        HeterogeneousQueue_new_def)
qed

lemma Write_nonempty: "Write mem event buffer = Inr buffer' \<Longrightarrow> buffer \<noteq> [] \<Longrightarrow> buffer' \<noteq> []"
  by (cases event)
    (auto simp: WritePOD_def DynamicString_Write_def StaticStringDependency_Write_def Let_def
      split: if_splits option.splits sum.splits)

lemma Push_nonempty: "Push mem ts event q = Inr q' \<Longrightarrow> Buffer q' \<noteq> []"
  by (auto simp: Push_def Let_def WritePOD_def dest!: Write_nonempty split: sum.splits if_splits)

lemma FlushLogStream_hands_over:
  assumes "wf_World s" and "GDispatch s = Some d"
  shows "\<exists>s' n. FlushLogStream thread s = Inr s'
     \<and> (Sink d, OnProcessLogBlock (Close (Clock s n) (CurrentBlock (LogEntries d)))) \<in> set (SinkCalls s')"
proof -
  from FlushLogStreamImpl_ok [OF assms, of thread] obtain s' where
    "FlushLogStreamImpl thread s = Inr s'" "log_rotated thread s d s'"
    by blast
  then show ?thesis
    using assms(2) unfolding log_rotated_def FlushLogStream_def by auto
qed

lemma FlushMetricStream_hands_over:
  assumes "wf_World s" and "GDispatch s = Some d"
  shows "\<exists>s' n. FlushMetricStream thread s = Inr s'
     \<and> (Sink d, OnProcessMetricBlock (Close (Clock s n) (CurrentBlock (Metrics d)))) \<in> set (SinkCalls s')"
proof -
  from FlushMetricStreamImpl_ok [OF assms, of thread] obtain s' where
    "FlushMetricStreamImpl thread s = Inr s'" "metric_rotated thread s d s'"
    by blast
  then show ?thesis
    using assms(2) unfolding metric_rotated_def FlushMetricStream_def by auto
qed

text \<open>
  Claim C10. \<open>GetPtr\<close> of a queue into which nothing has been pushed takes element 0 of an
  empty vector: the fault \<open>OutOfBounds\<close>; after a push the buffer is not empty and
  \<open>GetPtr\<close> returns it. \<open>FormatBlockRequest\<close> reaches this fault for every block
  whose event queue is empty, once the block information is serialized: the extracted
  dependency queue is empty too, and \<open>GetPtr\<close> is called on it. Such blocks reach the
  sink: a forced rotation (\<open>FlushLogStream\<close>, \<open>FlushMetricStream\<close>, as
  \<open>RemoteSink::OnShutdown\<close> calls them) closes the current block and hands it to the
  sink whatever it holds.
\<close>

theorem C10_GetPtr_empty_queue:
  "GetPtr (HeterogeneousQueue_new bufferSize) = Inl OutOfBounds
   \<and> (\<forall>q'. Push mem ts event q = Inr q' \<longrightarrow> GetPtr q' = Inr (Buffer q'))
   \<and> (\<forall>blockInfo jsonText.
         Buffer (Events block) = [] \<longrightarrow> BlockInfo host block = Inr blockInfo
         \<longrightarrow> Serialize host blockInfo = Some jsonText
         \<longrightarrow> ExtractBlockDependencies mem T block = Inr ExtractDependencies_new
             \<and> GetPtr (Dependencies ExtractDependencies_new) = Inl OutOfBounds
             \<and> GetPtr (Events block) = Inl OutOfBounds
             \<and> FormatBlockRequest host mem T block = Inl OutOfBounds)
   \<and> (wf_World s \<longrightarrow> GDispatch s = Some d
        \<longrightarrow> (\<exists>s' n. FlushLogStream thread s = Inr s'
               \<and> (Sink d, OnProcessLogBlock (Close (Clock s n) (CurrentBlock (LogEntries d))))
                   \<in> set (SinkCalls s'))
          \<and> (\<exists>s' n. FlushMetricStream thread s = Inr s'
               \<and> (Sink d, OnProcessMetricBlock (Close (Clock s n) (CurrentBlock (Metrics d))))
                   \<in> set (SinkCalls s')))"
proof (intro conjI allI impI)
  show "GetPtr (HeterogeneousQueue_new bufferSize) = Inl OutOfBounds"
    by (simp add: GetPtr_def HeterogeneousQueue_new_def)
next
  fix q' assume "Push mem ts event q = Inr q'"
  from Push_nonempty [OF this] show "GetPtr q' = Inr (Buffer q')"
    by (simp add: GetPtr_def)
next
  fix blockInfo jsonText
  assume a: "Buffer (Events block) = []" "BlockInfo host block = Inr blockInfo"
    "Serialize host blockInfo = Some jsonText"
  show "ExtractBlockDependencies mem T block = Inr ExtractDependencies_new"
    by (rule ExtractBlockDependencies_empty [OF a(1)])
  show "GetPtr (Dependencies ExtractDependencies_new) = Inl OutOfBounds"
    by (simp add: GetPtr_def ExtractDependencies_new_def HeterogeneousQueue_new_def)
  show "GetPtr (Events block) = Inl OutOfBounds"
    using a(1) by (simp add: GetPtr_def)
  show "FormatBlockRequest host mem T block = Inl OutOfBounds"
    by (rule FormatBlockRequest_empty [OF a])
next
  assume "wf_World s" "GDispatch s = Some d"
  then show "\<exists>s' n. FlushLogStream thread s = Inr s'
               \<and> (Sink d, OnProcessLogBlock (Close (Clock s n) (CurrentBlock (LogEntries d))))
                   \<in> set (SinkCalls s')"
    by (rule FlushLogStream_hands_over)
next
  assume "wf_World s" "GDispatch s = Some d"
  then show "\<exists>s' n. FlushMetricStream thread s = Inr s'
               \<and> (Sink d, OnProcessMetricBlock (Close (Clock s n) (CurrentBlock (Metrics d))))
                   \<in> set (SinkCalls s')"
    by (rule FlushMetricStream_hands_over)
qed

text \<open>
  A host whose serializer succeeds, and a process whose log buffer is so small that the
  log record of \<open>OnShutdown\<close> fills the current block: the record rotates the block, and
  the forced rotation that follows hands over an empty one.
\<close>

definition host0 :: Host where
  "host0 = \<lparr>NewGuid_ToString = ''block-0'', FormatTimeIso8601 = (\<lambda>t. ''1970-01-01T00:00:00Z''),
     to_string = (\<lambda>n. ''0''), Serialize = (\<lambda>fields. Some [123, 125]),
     CompressBuffer = (\<lambda>bs. bs)\<rparr>"

definition shutdown_small0 :: "fault + World" where
  "shutdown_small0 =
     and_then (Init guid0 processInfo0 7 145 4096 4096 world0) (Shutdown (RemoteSink_OnShutdown 1))"

lemma shutdown_small0_blocks:
  "\<exists>s b1 b2. shutdown_small0 = Inr s \<and> log_blocks (SinkCalls s) = [b1, b2]
     \<and> GetNbEvents (Events b1) = 1 \<and> Buffer (Events b2) = []
     \<and> GetNbEvents (Events b2) = 0 \<and> Timestamp (End b2) \<noteq> 0"
  by (simp add: shutdown_small0_def run_defs log_blocks_def)

theorem C10_GetPtr_empty_queue_witness:
  "\<exists>s b1 b2. shutdown_small0 = Inr s \<and> log_blocks (SinkCalls s) = [b1, b2]
     \<and> GetNbEvents (Events b1) = 1 \<and> GetNbEvents (Events b2) = 0
     \<and> GetPtr (Events b2) = Inl OutOfBounds
     \<and> FormatBlockRequest host0 empty_Memory LogBlock b2 = Inl OutOfBounds"
proof -
  from shutdown_small0_blocks obtain s b1 b2 where
    s: "shutdown_small0 = Inr s" "log_blocks (SinkCalls s) = [b1, b2]"
      "GetNbEvents (Events b1) = 1" "Buffer (Events b2) = []"
      "GetNbEvents (Events b2) = 0" "Timestamp (End b2) \<noteq> 0"
    by blast
  have "\<exists>blockInfo. BlockInfo host0 b2 = Inr blockInfo \<and> Serialize host0 blockInfo = Some [123, 125]"
    using s(6) by (simp add: BlockInfo_def GetEndTime_def host0_def)
  then obtain blockInfo where b: "BlockInfo host0 b2 = Inr blockInfo"
    "Serialize host0 blockInfo = Some [123, 125]"
    by blast
  from C10_GetPtr_empty_queue [of _ empty_Memory _ _ _ b2 host0 LogBlock,
      THEN conjunct2, THEN conjunct2, THEN conjunct1, rule_format, OF s(4) b]
  have "GetPtr (Events b2) = Inl OutOfBounds"
    "FormatBlockRequest host0 empty_Memory LogBlock b2 = Inl OutOfBounds"
    by simp_all
  with s show ?thesis
    by blast
qed

text \<open>
  Claim C9, as the code has it. When \<open>FJsonSerializer::Serialize\<close> fails on the block
  information, \<open>FormatBlockRequest\<close> logs the error and returns an empty array at once:
  the dependencies have been extracted before, but neither they nor the events are
  compressed or appended, whatever \<open>CompressBuffer\<close> would give.
\<close>

theorem C9_serialize_failure:
  assumes "ExtractBlockDependencies mem T block = Inr depExtrator"
    and "BlockInfo host block = Inr blockInfo"
    and "Serialize host blockInfo = None"
  shows "FormatBlockRequest host mem T block
           = Inr \<lparr>Content = [], LogLines = [''Error formatting block info as json'']\<rparr>
     \<and> (\<forall>compress. FormatBlockRequest (host\<lparr>CompressBuffer := compress\<rparr>) mem T block
           = Inr \<lparr>Content = [], LogLines = [''Error formatting block info as json'']\<rparr>)"
proof -
  have "BlockInfo (host\<lparr>CompressBuffer := compress\<rparr>) block = Inr blockInfo" for compress
    using assms(2) by (simp add: BlockInfo_def split: sum.splits)
  then show ?thesis
    using assms by (simp add: FormatBlockRequest_def)
qed

text \<open>
  A log block of three events: two records of one \<open>LogMetadata\<close> and an interop record.
  Its static strings and its metadata record are in \<open>mem1\<close>. \<open>host_fail0\<close> is \<open>host0\<close>
  with a serializer that fails.
\<close>

definition mem1 :: Memory where
  "mem1 = empty_Memory\<lparr>
     WideStrings := [0x5000 \<mapsto> [116], 0x5010 \<mapsto> [109, 115], 0x5020 \<mapsto> [102]],
     AnsiStrings := [0x6000 \<mapsto> [97, 98]],
     LogMetadatas := [0x9000 \<mapsto> LogMetadata 0x5000 0x5010 0x5020 12 3]\<rparr>"

definition events1 :: "Elem list" where
  "events1 = [LogStaticStrEvent 0x9000 7,
     LogStringInteropEvent 8 3 \<lparr>SizeBytes = 2, Codec = Ansi, Ptr = 0x6000\<rparr>
       \<lparr>SizeBytes = 1, Codec = Ansi, Data = [104]\<rparr>,
     LogStaticStrEvent 0x9000 9]"

definition block1 :: EventBlock where
  "block1 = \<lparr>StreamId = ''guid-0'', Begin = \<lparr>Timestamp = 1, SystemTime = 6001\<rparr>,
     End = \<lparr>Timestamp = 10, SystemTime = 6002\<rparr>,
     Events = (case PushAll mem1 LogEventQueue events1 (HeterogeneousQueue_new 4096) of
                 Inl f \<Rightarrow> HeterogeneousQueue_new 4096 | Inr q \<Rightarrow> q),
     Capacity = 4096\<rparr>"

definition host_fail0 :: Host where
  "host_fail0 = host0\<lparr>Serialize := (\<lambda>fields. None)\<rparr>"

lemmas block1_defs = block1_def events1_def mem1_def empty_Memory_def
  FormatBlockRequest_def BlockInfo_def GetEndTime_def Compress_queue_def Append_compressed_def
  GetPtr_def GetSizeBytes_def GetNbEvents_def ExtractBlockDependencies_def ForEach_def
  ExtractDependencies_new_def Ids_Add_def Extract_StaticStringRef_def Extract_TCHAR_def
  ExtractLogDependencies_LogMetadata_def StaticStringRef_wide_def GetID_def
  LogEventQueue_def LogDependenciesQueue_def HeterogeneousQueue_new_def
  Push_def WritePOD_def bytes_u64_def bytes_u32_def bytes_u16_def bytes_StaticStringRef_def
  DynamicString_Write_def DynamicString_GetSize_def DynamicString_GetHeaderSize_def
  DynamicString_wide_def DynamicString_of_ref_def wide_bytes_def
  StaticStringDependency_GetSize_def StaticStringDependency_Write_def
  sizeof_StaticStringRef_def Ansi_def Wide_def UnrealName_def Let_def

lemma block1_Events:
  "Events block1 = \<lparr>Buffer =
      [0, 0, 144, 0, 0, 0, 0, 0, 0, 7, 0, 0, 0, 0, 0, 0, 0,
       1, 31, 0, 0, 0, 8, 0, 0, 0, 0, 0, 0, 0, 3, 0, 96, 0, 0, 0, 0, 0, 0, 2, 0, 0, 0, 0, 0, 0, 0,
       0, 1, 0, 0, 0, 104,
       0, 0, 144, 0, 0, 0, 0, 0, 0, 9, 0, 0, 0, 0, 0, 0, 0], NbEvents = 3\<rparr>"
  by (simp add: block1_defs)

lemma represents_ForEach:
  fixes v :: "Elem \<Rightarrow> 'a \<Rightarrow> fault + 'a"
  assumes "represents mem ts block events" and "length ts \<le> 256"
  shows "ForEach ts v (Events block) acc = VisitAll v events acc"
proof -
  from assms have ok: "\<forall>event \<in> set events. TypeOf event \<in> set ts
           \<and> TypeOf event \<noteq> T_StaticStringDependency \<and> wf_Elem event"
    and p: "PushAll mem ts events (HeterogeneousQueue_new (Capacity block)) = Inr (Events block)"
    by (simp_all add: represents_def)
  from PushAll_ForEach [OF assms(2) ok, of mem] obtain bs where
    pushes: "\<And>q. PushAll mem ts events q
                = Inr \<lparr>Buffer = Buffer q @ bs, NbEvents = NbEvents q + length events\<rparr>"
    and visits: "\<And>pre rest (v :: Elem \<Rightarrow> 'a \<Rightarrow> fault + 'a) acc.
        ForEach_loop ts v (pre @ bs @ rest) (length pre) acc
        = (case VisitAll v events acc of Inl f \<Rightarrow> Inl f
           | Inr acc' \<Rightarrow> ForEach_loop ts v (pre @ bs @ rest) (length (pre @ bs)) acc')"
    by blast
  from p pushes [of "HeterogeneousQueue_new (Capacity block)"]
  have "Buffer (Events block) = bs"
    by (simp add: HeterogeneousQueue_new_def)
  with visits [of v "[]" "[]" acc]
  show ?thesis
    by (simp add: ForEach_def ForEach_loop_end split: sum.splits)
qed

lemma ExtractBlockDependencies_VisitAll:
  assumes "represents mem (EventQueue T) block events"
  shows "ExtractBlockDependencies mem T block
           = VisitAll (Extractor T mem) events ExtractDependencies_new"
proof -
  have "length (EventQueue T) \<le> 256"
    by (cases T) (simp_all add: LogEventQueue_def MetricEventQueue_def ThreadEventQueue_def)
  from represents_ForEach [OF assms this] show ?thesis
    by (simp add: ExtractBlockDependencies_def)
qed

lemma represents_block1: "represents mem1 (EventQueue LogBlock) block1 events1"
  by (simp add: represents_def wf_DynamicString_def block1_defs)

lemma Extract_block1:
  "ExtractBlockDependencies mem1 LogBlock block1 =
     Inr \<lparr>Ids = {0x6000, 0x5020, 0x5010, 0x5000, 0x9000},
          Dependencies = \<lparr>Buffer =
             [0, 15, 0, 0, 0, 0, 80, 0, 0, 0, 0, 0, 0, 1, 2, 0, 0, 0, 116, 0,
              0, 17, 0, 0, 0, 16, 80, 0, 0, 0, 0, 0, 0, 1, 4, 0, 0, 0, 109, 0, 115, 0,
              0, 15, 0, 0, 0, 32, 80, 0, 0, 0, 0, 0, 0, 1, 2, 0, 0, 0, 102, 0,
              1, 0, 144, 0, 0, 0, 0, 0, 0, 0, 80, 0, 0, 0, 0, 0, 0, 16, 80, 0, 0, 0, 0, 0, 0,
                 32, 80, 0, 0, 0, 0, 0, 0, 12, 0, 0, 0, 3, 0, 0, 0,
              0, 15, 0, 0, 0, 0, 96, 0, 0, 0, 0, 0, 0, 0, 2, 0, 0, 0, 97, 98],
             NbEvents = 5\<rparr>\<rparr>"
  unfolding ExtractBlockDependencies_VisitAll [OF represents_block1]
  by (simp add: block1_defs insert_commute)

lemma block1_times: "Timestamp (End block1) = 10" "Timestamp (Begin block1) = 1"
  by (simp_all add: block1_def)

theorem C9_payload_abandoned_counterexample:
  "FormatBlockRequest host_fail0 mem1 LogBlock block1
     = Inr \<lparr>Content = [], LogLines = [''Error formatting block info as json'']\<rparr>
   \<and> GetSizeBytes (Events block1) = 70
   \<and> (case ExtractBlockDependencies mem1 LogBlock block1 of Inl f \<Rightarrow> False
       | Inr depExtrator \<Rightarrow> GetSizeBytes (Dependencies depExtrator) = 123)
   \<and> (case FormatBlockRequest host0 mem1 LogBlock block1 of Inl f \<Rightarrow> False
       | Inr request \<Rightarrow> length (Content request) = 9 + (4 + 123) + (4 + 70)
           \<and> LogLines request = [])"
  unfolding FormatBlockRequest_def Extract_block1
  by (simp add: block1_Events block1_times host0_def host_fail0_def BlockInfo_def GetEndTime_def
      Compress_queue_def Append_compressed_def GetPtr_def GetSizeBytes_def GetNbEvents_def
      WritePOD_def bytes_u32_def bytes_u16_def DynamicString_Write_def DynamicString_wide_def
      wide_bytes_def Wide_def Ansi_def Let_def)

theorem C9_serialize_failure_witness:
  "ExtractBlockDependencies mem1 LogBlock block1 \<noteq> Inl BadPointer
   \<and> Serialize host_fail0 [] = None
   \<and> FormatBlockRequest host_fail0 mem1 LogBlock block1
       = Inr \<lparr>Content = [], LogLines = [''Error formatting block info as json'']\<rparr>
   \<and> FormatBlockRequest (host_fail0\<lparr>CompressBuffer := rev\<rparr>) mem1 LogBlock block1
       = Inr \<lparr>Content = [], LogLines = [''Error formatting block info as json'']\<rparr>"
proof -
  have "\<exists>blockInfo. BlockInfo host_fail0 block1 = Inr blockInfo"
    by (simp add: BlockInfo_def GetEndTime_def block1_times)
  then obtain blockInfo where b: "BlockInfo host_fail0 block1 = Inr blockInfo"
    by blast
  have n: "Serialize host_fail0 blockInfo = None" "Serialize host_fail0 [] = None"
    by (simp_all add: host_fail0_def)
  from C9_serialize_failure [OF Extract_block1 b n(1)] n(2) Extract_block1 show ?thesis
    by simp
qed

section \<open>What the extraction leaves in the dependency queue\<close>






text \<open>The reference \<open>StaticStringRef( p )\<close> makes of the wide string at \<open>p\<close>.\<close>

definition wide_ref :: "Memory \<Rightarrow> u64 \<Rightarrow> StaticStringRef" where
  "wide_ref mem p =
     (case WideStrings mem p of None \<Rightarrow> \<lparr>SizeBytes = 0, Codec = Wide, Ptr = p\<rparr>
      | Some str \<Rightarrow> \<lparr>SizeBytes = of_nat (length str * 2), Codec = Wide, Ptr = p\<rparr>)"












lemma GetID_wide_ref [simp]: "GetID (wide_ref mem p) = p"
  by (simp add: wide_ref_def GetID_def split: option.splits)




































section \<open>The times of a block and the timestamps of its events\<close>







definition now :: "World \<Rightarrow> u64" where
  "now s = Timestamp (Clock s (ClockReads s))"









































end
